theory Spec2Isabelle
  imports Complex_Main "HOL-Library.Word"
begin

section \<open>The frame fetcher of the imaging pipeline (fetcher\_image/fetch.py)\<close>

text \<open>
  The script resolves the metadata document of an image set, flattens it into a list of
  frame descriptors, fetches and stores every frame, and writes a manifest. The remote
  service, the file system and the library parsers are outside the script: their
  answers are parameters of the model (a record of oracles), and every exception the
  script can meet is a value.
\<close>

subsection \<open>Parsed JSON documents\<close>

text \<open>
  What \<^verbatim>\<open>json.loads\<close> returns: \<^verbatim>\<open>None\<close>, booleans, integers, floats, strings, lists
  and dicts. A dict is the list of its items in insertion order; a Python dict has
  distinct keys, and \<^verbatim>\<open>get\<close> reads the first item with the key. A float is a real
  number here (NaN and the infinities have no counterpart).
\<close>

datatype json =
    JNull
  | JBool bool
  | JInt int
  | JFloat real
  | JStr string
  | JArr "json list"
  | JObj "(string \<times> json) list"

text \<open>Exceptions: the two the navigation code raises itself, those of the outside world,
  which carry the text that \<^verbatim>\<open>str(e)\<close> gives, and the \<^verbatim>\<open>SystemExit\<close> with which
  \<^verbatim>\<open>argparse\<close> leaves the program, which carries its status. An interrupt or a kill of
  the process from outside is not a value of the model.\<close>

datatype exception =
    AttributeError json string
  | TypeError json
  | External string
  | SystemExit int

text \<open>Truth value of an object in an \<^verbatim>\<open>if\<close>.\<close>

fun truthy :: "json \<Rightarrow> bool" where
  "truthy JNull = False"
| "truthy (JBool b) = b"
| "truthy (JInt n) = (n \<noteq> 0)"
| "truthy (JFloat r) = (r \<noteq> 0)"
| "truthy (JStr s) = (s \<noteq> [])"
| "truthy (JArr xs) = (xs \<noteq> [])"
| "truthy (JObj kvs) = (kvs \<noteq> [])"

text \<open>\<^verbatim>\<open>obj.get(key, default)\<close>: only a dict has the method.\<close>

fun dict_get :: "json \<Rightarrow> string \<Rightarrow> json \<Rightarrow> exception + json" where
  "dict_get (JObj kvs) k d = Inr (case map_of kvs k of Some v \<Rightarrow> v | None \<Rightarrow> d)"
| "dict_get v k d = Inl (AttributeError v ''get'')"

text \<open>\<^verbatim>\<open>obj.items()\<close>.\<close>

fun dict_items :: "json \<Rightarrow> exception + (string \<times> json) list" where
  "dict_items (JObj kvs) = Inr kvs"
| "dict_items v = Inl (AttributeError v ''items'')"

text \<open>The values a \<^verbatim>\<open>for\<close> loop draws from an object: the elements of a list, the keys
  of a dict, the characters of a string; anything else is not iterable.\<close>

fun iterate :: "json \<Rightarrow> exception + json list" where
  "iterate (JArr xs) = Inr xs"
| "iterate (JObj kvs) = Inr (map (\<lambda>kv. JStr (fst kv)) kvs)"
| "iterate (JStr s) = Inr (map (\<lambda>c. JStr [c]) s)"
| "iterate v = Inl (TypeError v)"

subsection \<open>Frame enumeration (extract\_frame\_ids)\<close>

text \<open>A frame descriptor. The source builds a dict with exactly these three keys; the
  two parent identifiers are dict keys of the document, hence strings, while the frame
  identifier is whatever truthy value the document holds under \<^verbatim>\<open>"ID"\<close>.\<close>

record frame_info =
  frameId :: json
  seriesId :: string
  instanceId :: string

text \<open>The innermost loop, over the frame references of one instance; \<open>frame_ids\<close> is the
  list the source appends to.\<close>

fun frames_loop :: "string \<Rightarrow> string \<Rightarrow> json list \<Rightarrow> frame_info list \<Rightarrow> exception + frame_info list" where
  "frames_loop series_id instance_id [] frame_ids = Inr frame_ids"
| "frames_loop series_id instance_id (frame # rest) frame_ids =
     (case dict_get frame ''ID'' JNull of
        Inl e \<Rightarrow> Inl e
      | Inr frame_id \<Rightarrow>
          frames_loop series_id instance_id rest
            (if truthy frame_id
             then frame_ids @ [\<lparr>frameId = frame_id, seriesId = series_id, instanceId = instance_id\<rparr>]
             else frame_ids))"

fun instances_loop :: "string \<Rightarrow> (string \<times> json) list \<Rightarrow> frame_info list \<Rightarrow> exception + frame_info list" where
  "instances_loop series_id [] frame_ids = Inr frame_ids"
| "instances_loop series_id ((instance_id, instance_data) # rest) frame_ids =
     (case dict_get instance_data ''ImageFrames'' (JArr []) of
        Inl e \<Rightarrow> Inl e
      | Inr image_frames \<Rightarrow>
          (case iterate image_frames of
             Inl e \<Rightarrow> Inl e
           | Inr frames \<Rightarrow>
               (case frames_loop series_id instance_id frames frame_ids of
                  Inl e \<Rightarrow> Inl e
                | Inr frame_ids' \<Rightarrow> instances_loop series_id rest frame_ids')))"

fun series_loop :: "(string \<times> json) list \<Rightarrow> frame_info list \<Rightarrow> exception + frame_info list" where
  "series_loop [] frame_ids = Inr frame_ids"
| "series_loop ((series_id, series_data) # rest) frame_ids =
     (case dict_get series_data ''Instances'' (JObj []) of
        Inl e \<Rightarrow> Inl e
      | Inr instances \<Rightarrow>
          (case dict_items instances of
             Inl e \<Rightarrow> Inl e
           | Inr items \<Rightarrow>
               (case instances_loop series_id items frame_ids of
                  Inl e \<Rightarrow> Inl e
                | Inr frame_ids' \<Rightarrow> series_loop rest frame_ids')))"

definition extract_frame_ids :: "json \<Rightarrow> exception + frame_info list" where
  "extract_frame_ids metadata =
     (case dict_get metadata ''Study'' (JObj []) of
        Inl e \<Rightarrow> Inl e
      | Inr study \<Rightarrow>
          (case dict_get study ''Series'' (JObj []) of
             Inl e \<Rightarrow> Inl e
           | Inr series_dict \<Rightarrow>
               (case dict_items series_dict of
                  Inl e \<Rightarrow> Inl e
                | Inr items \<Rightarrow> series_loop items [])))"

text \<open>The \<^verbatim>\<open>--max-frames\<close> cut in \<^verbatim>\<open>main\<close>: \<^verbatim>\<open>frame_ids[:max_frames]\<close> when the
  argument is positive.\<close>

definition limit_frames :: "int \<Rightarrow> frame_info list \<Rightarrow> frame_info list" where
  "limit_frames max_frames frame_ids =
     (if max_frames > 0 then take (nat max_frames) frame_ids else frame_ids)"

subsection \<open>The document as the specification describes it\<close>

text \<open>These definitions follow the specification's data model, not the code: a study
  holds a mapping of series, a series a mapping of instances, an instance a sequence of
  frame references. They read a document without failing: a missing or ill-typed level
  has no children.\<close>

definition field_of :: "json \<Rightarrow> string \<Rightarrow> json option" where
  "field_of v k = (case v of JObj kvs \<Rightarrow> map_of kvs k | _ \<Rightarrow> None)"

definition children :: "json option \<Rightarrow> (string \<times> json) list" where
  "children v = (case v of Some (JObj kvs) \<Rightarrow> kvs | _ \<Rightarrow> [])"

definition series_of :: "json \<Rightarrow> (string \<times> json) list" where
  "series_of metadata =
     children (case field_of metadata ''Study'' of Some study \<Rightarrow> field_of study ''Series'' | None \<Rightarrow> None)"

definition instances_of :: "json \<Rightarrow> (string \<times> json) list" where
  "instances_of series_data = children (field_of series_data ''Instances'')"

definition frame_refs_of :: "json \<Rightarrow> json list" where
  "frame_refs_of instance_data =
     (case field_of instance_data ''ImageFrames'' of Some (JArr frames) \<Rightarrow> frames | _ \<Rightarrow> [])"

text \<open>All frame references of the document, with their parents, in document order.\<close>

definition instance_refs :: "string \<Rightarrow> (string \<times> json) list \<Rightarrow> (string \<times> string \<times> json) list" where
  "instance_refs series_id instances =
     concat (map (\<lambda>i. map (\<lambda>f. (series_id, fst i, f)) (frame_refs_of (snd i))) instances)"

definition frame_refs :: "json \<Rightarrow> (string \<times> string \<times> json) list" where
  "frame_refs metadata =
     concat (map (\<lambda>s. instance_refs (fst s) (instances_of (snd s))) (series_of metadata))"

text \<open>The sum, over all series and all instances, of the number of frame references.\<close>

definition frame_ref_count :: "json \<Rightarrow> nat" where
  "frame_ref_count metadata =
     sum_list (map (\<lambda>s. sum_list (map (\<lambda>i. length (frame_refs_of (snd i))) (instances_of (snd s))))
                   (series_of metadata))"

text \<open>The identifier a frame reference carries (\<^verbatim>\<open>None\<close> when it has none).\<close>

definition ref_id :: "json \<Rightarrow> json" where
  "ref_id frame = (case field_of frame ''ID'' of Some v \<Rightarrow> v | None \<Rightarrow> JNull)"

text \<open>A well-formed frame reference is an object whose identifier is a non-empty
  string; a well-formed document has the shape of the data model at every level that is
  present (an absent level contributes nothing).\<close>

definition wf_frame :: "json \<Rightarrow> bool" where
  "wf_frame frame = (case field_of frame ''ID'' of Some (JStr s) \<Rightarrow> s \<noteq> [] | _ \<Rightarrow> False)"

definition wf_instance :: "json \<Rightarrow> bool" where
  "wf_instance instance_data =
     (case instance_data of
        JObj kvs \<Rightarrow>
          (case map_of kvs ''ImageFrames'' of
             None \<Rightarrow> True
           | Some (JArr frames) \<Rightarrow> list_all wf_frame frames
           | Some _ \<Rightarrow> False)
      | _ \<Rightarrow> False)"

definition wf_series :: "json \<Rightarrow> bool" where
  "wf_series series_data =
     (case series_data of
        JObj kvs \<Rightarrow>
          (case map_of kvs ''Instances'' of
             None \<Rightarrow> True
           | Some (JObj instances) \<Rightarrow> list_all (\<lambda>i. wf_instance (snd i)) instances
           | Some _ \<Rightarrow> False)
      | _ \<Rightarrow> False)"

definition well_formed :: "json \<Rightarrow> bool" where
  "well_formed metadata =
     (case metadata of
        JObj kvs \<Rightarrow>
          (case map_of kvs ''Study'' of
             None \<Rightarrow> True
           | Some (JObj study) \<Rightarrow>
               (case map_of study ''Series'' of
                  None \<Rightarrow> True
                | Some (JObj series) \<Rightarrow> list_all (\<lambda>s. wf_series (snd s)) series
                | Some _ \<Rightarrow> False)
           | Some _ \<Rightarrow> False)
      | _ \<Rightarrow> False)"

text \<open>A navigable document has the same shape, but its frame references are objects of
  any content: with any identifier, or with none.\<close>

definition is_object :: "json \<Rightarrow> bool" where
  "is_object v = (case v of JObj kvs \<Rightarrow> True | _ \<Rightarrow> False)"

definition nav_instance :: "json \<Rightarrow> bool" where
  "nav_instance instance_data =
     (case instance_data of
        JObj kvs \<Rightarrow>
          (case map_of kvs ''ImageFrames'' of
             None \<Rightarrow> True
           | Some (JArr frames) \<Rightarrow> list_all is_object frames
           | Some _ \<Rightarrow> False)
      | _ \<Rightarrow> False)"

definition nav_series :: "json \<Rightarrow> bool" where
  "nav_series series_data =
     (case series_data of
        JObj kvs \<Rightarrow>
          (case map_of kvs ''Instances'' of
             None \<Rightarrow> True
           | Some (JObj instances) \<Rightarrow> list_all (\<lambda>i. nav_instance (snd i)) instances
           | Some _ \<Rightarrow> False)
      | _ \<Rightarrow> False)"

definition navigable :: "json \<Rightarrow> bool" where
  "navigable metadata =
     (case metadata of
        JObj kvs \<Rightarrow>
          (case map_of kvs ''Study'' of
             None \<Rightarrow> True
           | Some (JObj study) \<Rightarrow>
               (case map_of study ''Series'' of
                  None \<Rightarrow> True
                | Some (JObj series) \<Rightarrow> list_all (\<lambda>s. nav_series (snd s)) series
                | Some _ \<Rightarrow> False)
           | Some _ \<Rightarrow> False)
      | _ \<Rightarrow> False)"

text \<open>The descriptors the references with a truthy identifier give.\<close>

definition kept :: "(string \<times> string \<times> json) list \<Rightarrow> frame_info list" where
  "kept refs =
     map (\<lambda>r. \<lparr>frameId = ref_id (snd (snd r)), seriesId = fst r, instanceId = fst (snd r)\<rparr>)
         (filter (\<lambda>r. truthy (ref_id (snd (snd r)))) refs)"

definition skipped :: "(string \<times> string \<times> json) list \<Rightarrow> nat" where
  "skipped refs = length (filter (\<lambda>r. \<not> truthy (ref_id (snd (snd r)))) refs)"

subsection \<open>Paths (pathlib's pure POSIX paths)\<close>

text \<open>A path is its root (empty, one slash, or exactly two) and its components; empty
  components and single dots are dropped when a string is parsed, \<^verbatim>\<open>..\<close> is kept.\<close>

record path =
  root :: string
  parts :: "string list"

fun split_slash :: "string \<Rightarrow> string list" where
  "split_slash [] = [[]]"
| "split_slash (c # cs) =
     (if c = CHR ''/'' then [] # split_slash cs
      else (case split_slash cs of w # ws \<Rightarrow> (c # w) # ws | [] \<Rightarrow> [[c]]))"

definition path_root :: "string \<Rightarrow> string" where
  "path_root s =
     (if take 2 s = ''//'' \<and> take 3 s \<noteq> ''///'' then ''//''
      else if take 1 s = ''/'' then ''/''
      else [])"

definition path_parts :: "string \<Rightarrow> string list" where
  "path_parts s = filter (\<lambda>w. w \<noteq> [] \<and> w \<noteq> ''.'') (split_slash s)"

definition Path :: "string \<Rightarrow> path" where
  "Path s = \<lparr>root = path_root s, parts = path_parts s\<rparr>"

text \<open>\<^verbatim>\<open>p / s\<close>: a segment with a root replaces the path.\<close>

definition joinpath :: "path \<Rightarrow> string \<Rightarrow> path" where
  "joinpath p s = (if path_root s \<noteq> [] then Path s else p\<lparr>parts := parts p @ path_parts s\<rparr>)"

text \<open>\<^verbatim>\<open>p.name\<close>: the final component.\<close>

definition path_name :: "path \<Rightarrow> string" where
  "path_name p = (if parts p = [] then [] else last (parts p))"

subsection \<open>The outside world\<close>

text \<open>A file holds the bytes of a frame, a JSON document (the value that \<^verbatim>\<open>json.dump\<close>
  received and \<^verbatim>\<open>json.load\<close> reads back; its text is what \<^verbatim>\<open>json.dump\<close> makes of the
  value), or the remains of a write that failed. Files are told apart by their paths as written (no links, no
  resolution of \<^verbatim>\<open>..\<close>). The trace lists the effects of a run in order.\<close>

datatype content = Bytes "8 word list" | Document json | Incomplete

datatype event =
    MakeDirs path
  | CreateClient
  | MetadataCall string string
  | FrameCall string string json
  | OpenFile path

record world =
  files :: "path \<rightharpoonup> content"
  trace :: "event list"

datatype write_outcome = Written | OpenFails string | WriteFails string

text \<open>The namespace that \<^verbatim>\<open>parse_args\<close> returns.\<close>

record args =
  datastore_id :: string
  image_set_id :: string
  output_dir :: string
  max_frames :: int
  region :: "string option"

text \<open>The answers of the outside world. A \<open>string\<close> on the left of a sum, or in an
  option, is the text of the exception raised there. The per-frame answers may differ
  from one turn of the loop to the next, so they take the loop index. \<open>parse_args\<close> is
  the answer of \<^verbatim>\<open>argparse\<close> to the command line, under the parser that \<^verbatim>\<open>main\<close> builds:
  the namespace, or the status with which it ends the program (2 after a usage error, 0
  after \<^verbatim>\<open>--help\<close>). \<open>json_dumps\<close> is the text that \<^verbatim>\<open>json.dump\<close> with \<^verbatim>\<open>indent=2\<close> writes
  for a value. \<open>py_repr\<close> is Python's \<^verbatim>\<open>repr\<close>, which formats a value that is not a
  string.\<close>

record env =
  parse_args :: "string list \<Rightarrow> int + args"
  mkdir :: "path \<Rightarrow> string option"
  create_client :: "string option \<Rightarrow> string option"
  remote_metadata :: "string \<Rightarrow> string \<Rightarrow> string + 8 word list"
  gunzip_decode :: "8 word list \<Rightarrow> string + string"
  json_loads :: "string \<Rightarrow> string + json"
  metadata_write :: "path \<Rightarrow> write_outcome"
  remote_frame :: "nat \<Rightarrow> string \<Rightarrow> string \<Rightarrow> json \<Rightarrow> string + 8 word list"
  frame_write :: "nat \<Rightarrow> path \<Rightarrow> write_outcome"
  manifest_write :: "path \<Rightarrow> write_outcome"
  json_dumps :: "json \<Rightarrow> string"
  py_repr :: "json \<Rightarrow> string"

definition emit :: "event \<Rightarrow> world \<Rightarrow> world" where
  "emit ev w = w\<lparr>trace := trace w @ [ev]\<rparr>"

text \<open>\<^verbatim>\<open>with open(p, mode) as f: write(c)\<close>. A failure to open leaves the files as
  they were; a failure while writing leaves an incomplete file.\<close>

definition write_file :: "write_outcome \<Rightarrow> path \<Rightarrow> content \<Rightarrow> world \<Rightarrow> world \<times> string option" where
  "write_file outcome p c w =
     (case outcome of
        Written \<Rightarrow> (emit (OpenFile p) (w\<lparr>files := (files w)(p \<mapsto> c)\<rparr>), None)
      | OpenFails msg \<Rightarrow> (emit (OpenFile p) w, Some msg)
      | WriteFails msg \<Rightarrow> (emit (OpenFile p) (w\<lparr>files := (files w)(p \<mapsto> Incomplete)\<rparr>), Some msg))"

subsection \<open>The functions of the script\<close>

text \<open>Log lines are not modelled.\<close>

definition get_medical_imaging_client :: "env \<Rightarrow> string option \<Rightarrow> world \<Rightarrow> world \<times> string option" where
  "get_medical_imaging_client env region_name w = (emit CreateClient w, create_client env region_name)"

text \<open>One remote call, then decompression and decoding, then parsing.\<close>

definition get_image_set_metadata :: "env \<Rightarrow> string \<Rightarrow> string \<Rightarrow> world \<Rightarrow> world \<times> (exception + json)" where
  "get_image_set_metadata env datastore image_set w =
     (emit (MetadataCall datastore image_set) w,
      case remote_metadata env datastore image_set of
        Inl msg \<Rightarrow> Inl (External msg)
      | Inr metadata_blob \<Rightarrow>
          (case gunzip_decode env metadata_blob of
             Inl msg \<Rightarrow> Inl (External msg)
           | Inr metadata_json \<Rightarrow>
               (case json_loads env metadata_json of
                  Inl msg \<Rightarrow> Inl (External msg)
                | Inr metadata \<Rightarrow> Inr metadata)))"

definition fetch_image_frame :: "env \<Rightarrow> nat \<Rightarrow> string \<Rightarrow> string \<Rightarrow> json \<Rightarrow> world \<Rightarrow> world \<times> (string + 8 word list)" where
  "fetch_image_frame env i datastore image_set frame_id w =
     (emit (FrameCall datastore image_set frame_id) w, remote_frame env i datastore image_set frame_id)"

text \<open>A value inside an f-string: a string as it is, anything else through \<^verbatim>\<open>repr\<close>
  (for the types of a JSON document \<^verbatim>\<open>str\<close> and \<^verbatim>\<open>repr\<close> differ on strings only).\<close>

definition format_value :: "env \<Rightarrow> json \<Rightarrow> string" where
  "format_value env v = (case v of JStr s \<Rightarrow> s | _ \<Rightarrow> py_repr env v)"

definition frame_filename :: "env \<Rightarrow> frame_info \<Rightarrow> string" where
  "frame_filename env frame_info =
     seriesId frame_info @ ''_'' @ instanceId frame_info @ ''_''
       @ format_value env (frameId frame_info) @ ''.htj2k''"

definition save_frame :: "env \<Rightarrow> nat \<Rightarrow> 8 word list \<Rightarrow> path \<Rightarrow> frame_info \<Rightarrow> world \<Rightarrow> world \<times> (string + path)" where
  "save_frame env i frame_data output_path frame_info w =
     (let filename = frame_filename env frame_info;
          filepath = joinpath output_path filename
      in case write_file (frame_write env i filepath) filepath (Bytes frame_data) w of
           (w', Some msg) \<Rightarrow> (w', Inl msg)
         | (w', None) \<Rightarrow> (w', Inr filepath))"

record manifest =
  datastoreId :: string
  imageSetId :: string
  totalFrames :: int
  frames :: "json list"

text \<open>The manifest as the dict that \<^verbatim>\<open>json.dump\<close> receives.\<close>

definition manifest_json :: "manifest \<Rightarrow> json" where
  "manifest_json m =
     JObj [(''datastoreId'', JStr (datastoreId m)),
           (''imageSetId'', JStr (imageSetId m)),
           (''totalFrames'', JInt (totalFrames m)),
           (''frames'', JArr (frames m))]"

definition save_manifest :: "env \<Rightarrow> path \<Rightarrow> manifest \<Rightarrow> world \<Rightarrow> world \<times> string option" where
  "save_manifest env output_path manifest_data w =
     (let manifest_path = joinpath output_path ''manifest.json''
      in write_file (manifest_write env manifest_path) manifest_path
           (Document (manifest_json manifest_data)) w)"

text \<open>The two dicts appended to \<^verbatim>\<open>manifest["frames"]\<close>; \<^verbatim>\<open>**frame_info\<close> spreads the
  three keys of the descriptor.\<close>

definition frame_info_items :: "frame_info \<Rightarrow> (string \<times> json) list" where
  "frame_info_items frame_info =
     [(''frameId'', frameId frame_info),
      (''seriesId'', JStr (seriesId frame_info)),
      (''instanceId'', JStr (instanceId frame_info))]"

definition success_record :: "frame_info \<Rightarrow> string \<Rightarrow> int \<Rightarrow> json" where
  "success_record frame_info name n =
     JObj (frame_info_items frame_info @ [(''filename'', JStr name), (''size'', JInt n)])"

definition error_record :: "frame_info \<Rightarrow> string \<Rightarrow> json" where
  "error_record frame_info msg = JObj (frame_info_items frame_info @ [(''error'', JStr msg)])"

text \<open>The body of the loop of \<^verbatim>\<open>main\<close>, with its \<^verbatim>\<open>try\<close>: the state is the world and
  the manifest.\<close>

definition process_frame :: "env \<Rightarrow> args \<Rightarrow> path \<Rightarrow> nat \<Rightarrow> frame_info \<Rightarrow> world \<times> manifest \<Rightarrow> world \<times> manifest" where
  "process_frame env a output_path i frame_info st =
     (case st of (w, m) \<Rightarrow>
        (case fetch_image_frame env i (datastore_id a) (image_set_id a) (frameId frame_info) w of
           (w1, Inl msg) \<Rightarrow> (w1, m\<lparr>frames := frames m @ [error_record frame_info msg]\<rparr>)
         | (w1, Inr frame_data) \<Rightarrow>
             (case save_frame env i frame_data output_path frame_info w1 of
                (w2, Inl msg) \<Rightarrow> (w2, m\<lparr>frames := frames m @ [error_record frame_info msg]\<rparr>)
              | (w2, Inr filepath) \<Rightarrow>
                  (w2, m\<lparr>frames := frames m @
                     [success_record frame_info (path_name filepath) (int (length frame_data))]\<rparr>))))"

fun process_frames :: "env \<Rightarrow> args \<Rightarrow> path \<Rightarrow> nat \<Rightarrow> frame_info list \<Rightarrow> world \<times> manifest \<Rightarrow> world \<times> manifest" where
  "process_frames env a output_path i [] st = st"
| "process_frames env a output_path i (frame_info # rest) st =
     process_frames env a output_path (Suc i) rest (process_frame env a output_path i frame_info st)"

text \<open>\<^verbatim>\<open>main\<close> up to the metadata document: the output directory, the client, the
  document.\<close>

definition resolve :: "env \<Rightarrow> args \<Rightarrow> world \<Rightarrow> world \<times> (exception + json)" where
  "resolve env a w =
     (let output_path = Path (output_dir a);
          w1 = emit (MakeDirs output_path) w
      in case mkdir env output_path of
           Some msg \<Rightarrow> (w1, Inl (External msg))
         | None \<Rightarrow>
             (case get_medical_imaging_client env (region a) w1 of
                (w2, Some msg) \<Rightarrow> (w2, Inl (External msg))
              | (w2, None) \<Rightarrow> get_image_set_metadata env (datastore_id a) (image_set_id a) w2))"

text \<open>\<^verbatim>\<open>main\<close> up to the end of its loop: the result is the manifest in memory.\<close>

definition main_loop :: "env \<Rightarrow> args \<Rightarrow> world \<Rightarrow> world \<times> (exception + manifest)" where
  "main_loop env a w =
     (let output_path = Path (output_dir a)
      in case resolve env a w of
           (w2, Inl e) \<Rightarrow> (w2, Inl e)
         | (w2, Inr metadata) \<Rightarrow>
             (let metadata_path = joinpath output_path ''metadata.json''
              in case write_file (metadata_write env metadata_path) metadata_path (Document metadata) w2 of
                   (w3, Some msg) \<Rightarrow> (w3, Inl (External msg))
                 | (w3, None) \<Rightarrow>
                     (case extract_frame_ids metadata of
                        Inl e \<Rightarrow> (w3, Inl e)
                      | Inr all_frame_ids \<Rightarrow>
                          (let frame_ids = limit_frames (max_frames a) all_frame_ids;
                               manifest = \<lparr>datastoreId = datastore_id a,
                                           imageSetId = image_set_id a,
                                           totalFrames = int (length frame_ids),
                                           frames = []\<rparr>
                           in case process_frames env a output_path 0 frame_ids (w3, manifest) of
                                (w4, manifest') \<Rightarrow> (w4, Inr manifest')))))"

text \<open>\<^verbatim>\<open>main\<close> from the namespace on: the value returned, or the exception that left
  it.\<close>

definition main_with :: "env \<Rightarrow> args \<Rightarrow> world \<Rightarrow> world \<times> (exception + int)" where
  "main_with env a w =
     (case main_loop env a w of
        (w4, Inl e) \<Rightarrow> (w4, Inl e)
      | (w4, Inr manifest) \<Rightarrow>
          (case save_manifest env (Path (output_dir a)) manifest w4 of
             (w5, Some msg) \<Rightarrow> (w5, Inl (External msg))
           | (w5, None) \<Rightarrow> (w5, Inr 0)))"

text \<open>\<^verbatim>\<open>main\<close>, on the command line \<open>argv\<close>: \<^verbatim>\<open>parse_args\<close> comes first and may end the
  program.\<close>

definition main :: "env \<Rightarrow> string list \<Rightarrow> world \<Rightarrow> world \<times> (exception + int)" where
  "main env argv w =
     (case parse_args env argv of
        Inl status \<Rightarrow> (w, Inl (SystemExit status))
      | Inr a \<Rightarrow> main_with env a w)"

text \<open>\<^verbatim>\<open>sys.exit(main())\<close>: the status of the process. A \<^verbatim>\<open>SystemExit\<close> ends the
  interpreter with the status it carries, any other exception that leaves \<^verbatim>\<open>main\<close> with
  status 1.\<close>

definition exit_code :: "exception + int \<Rightarrow> int" where
  "exit_code r =
     (case r of
        Inl (SystemExit status) \<Rightarrow> status
      | Inl e \<Rightarrow> 1
      | Inr n \<Rightarrow> n)"

subsection \<open>Reading a manifest\<close>

text \<open>A success record has the keys \<^verbatim>\<open>filename\<close> and \<^verbatim>\<open>size\<close> and no key \<^verbatim>\<open>error\<close>; an
  error record has the key \<^verbatim>\<open>error\<close> and no key \<^verbatim>\<open>filename\<close>.\<close>

definition has_key :: "json \<Rightarrow> string \<Rightarrow> bool" where
  "has_key v k = (field_of v k \<noteq> None)"

definition is_success_record :: "json \<Rightarrow> bool" where
  "is_success_record v = (has_key v ''filename'' \<and> has_key v ''size'' \<and> \<not> has_key v ''error'')"

definition is_error_record :: "json \<Rightarrow> bool" where
  "is_error_record v = (has_key v ''error'' \<and> \<not> has_key v ''filename'')"

text \<open>The descriptor an entry of the manifest was made for.\<close>

definition entry_info :: "json \<Rightarrow> frame_info option" where
  "entry_info v =
     (case (field_of v ''frameId'', field_of v ''seriesId'', field_of v ''instanceId'') of
        (Some f, Some (JStr s), Some (JStr i)) \<Rightarrow> Some \<lparr>frameId = f, seriesId = s, instanceId = i\<rparr>
      | _ \<Rightarrow> None)"

text \<open>The text of a file that \<^verbatim>\<open>json.dump\<close> wrote.\<close>

definition text_of :: "env \<Rightarrow> content \<Rightarrow> string option" where
  "text_of env c = (case c of Document v \<Rightarrow> Some (json_dumps env v) | _ \<Rightarrow> None)"

text \<open>The text of the file at a path, when \<^verbatim>\<open>json.dump\<close> wrote it.\<close>

definition file_text :: "env \<Rightarrow> world \<Rightarrow> path \<Rightarrow> string option" where
  "file_text env w p = (case files w p of None \<Rightarrow> None | Some c \<Rightarrow> text_of env c)"

subsection \<open>What happens to one frame, and the two fixed files\<close>

text \<open>The outcome of the fetch and the write of the descriptor at loop index \<open>i\<close>, read off the
  answers of the outside world: the text of the exception raised, or the payload stored.\<close>

definition frame_outcome :: "env \<Rightarrow> args \<Rightarrow> path \<Rightarrow> nat \<Rightarrow> frame_info \<Rightarrow> string + 8 word list" where
  "frame_outcome env a output_path i frame_info =
     (case remote_frame env i (datastore_id a) (image_set_id a) (frameId frame_info) of
        Inl msg \<Rightarrow> Inl msg
      | Inr frame_data \<Rightarrow>
          (case frame_write env i (joinpath output_path (frame_filename env frame_info)) of
             Written \<Rightarrow> Inr frame_data
           | OpenFails msg \<Rightarrow> Inl msg
           | WriteFails msg \<Rightarrow> Inl msg))"

text \<open>The entry that outcome puts into the manifest.\<close>

definition frame_entry :: "env \<Rightarrow> args \<Rightarrow> path \<Rightarrow> nat \<Rightarrow> frame_info \<Rightarrow> json" where
  "frame_entry env a output_path i frame_info =
     (case frame_outcome env a output_path i frame_info of
        Inl msg \<Rightarrow> error_record frame_info msg
      | Inr frame_data \<Rightarrow>
          success_record frame_info
            (path_name (joinpath output_path (frame_filename env frame_info)))
            (int (length frame_data)))"

definition metadata_path :: "args \<Rightarrow> path" where
  "metadata_path a = joinpath (Path (output_dir a)) ''metadata.json''"

definition manifest_path :: "args \<Rightarrow> path" where
  "manifest_path a = joinpath (Path (output_dir a)) ''manifest.json''"

text \<open>Metadata resolution fails when the remote call, the decompression or the parsing
  raises.\<close>

definition metadata_resolution_fails :: "env \<Rightarrow> args \<Rightarrow> bool" where
  "metadata_resolution_fails env a =
     (case remote_metadata env (datastore_id a) (image_set_id a) of
        Inl msg \<Rightarrow> True
      | Inr metadata_blob \<Rightarrow>
          (case gunzip_decode env metadata_blob of
             Inl msg \<Rightarrow> True
           | Inr metadata_json \<Rightarrow> isl (json_loads env metadata_json)))"

text \<open>The events of the setup phase: everything but a frame request and the opening of a
  file.\<close>

definition setup_event :: "event \<Rightarrow> bool" where
  "setup_event ev = (case ev of FrameCall d s f \<Rightarrow> False | OpenFile p \<Rightarrow> False | _ \<Rightarrow> True)"

subsection \<open>Sample inputs\<close>

text \<open>A document with two series, three instances (one of them without frames) and three
  frame references.\<close>

definition example_metadata :: json where
  "example_metadata =
     JObj [(''DatastoreID'', JStr ''d1''),
           (''Study'', JObj [(''Series'', JObj
              [(''s1'', JObj [(''Instances'', JObj
                  [(''i1'', JObj [(''ImageFrames'', JArr [JObj [(''ID'', JStr ''f1'')],
                                                        JObj [(''ID'', JStr ''f2'')]])]),
                   (''i2'', JObj [(''DICOM'', JObj [])])])]),
               (''s2'', JObj [(''Instances'', JObj
                  [(''i3'', JObj [(''ImageFrames'', JArr [JObj [(''ID'', JStr ''f3'')]])])])])])])]"

text \<open>A document with ten frame references, of which eight have no identifier or a falsy
  one: the empty string, \<^verbatim>\<open>null\<close>, the numbers \<^verbatim>\<open>0\<close> and \<^verbatim>\<open>0.0\<close>, \<^verbatim>\<open>false\<close>, an empty list, an
  empty object.\<close>

definition gappy_metadata :: json where
  "gappy_metadata =
     JObj [(''Study'', JObj [(''Series'', JObj
              [(''s1'', JObj [(''Instances'', JObj
                  [(''i1'', JObj [(''ImageFrames'', JArr [JObj [(''ID'', JStr ''f1'')],
                                                        JObj [(''ID'', JStr [])],
                                                        JObj [(''Size'', JInt 512)],
                                                        JObj [(''ID'', JNull)],
                                                        JObj [(''ID'', JInt 0)],
                                                        JObj [(''ID'', JFloat 0)],
                                                        JObj [(''ID'', JBool False)],
                                                        JObj [(''ID'', JArr [])],
                                                        JObj [(''ID'', JObj [])],
                                                        JObj [(''ID'', JStr ''f2'')]])])])])])])]"

text \<open>A small document and three texts of it: two that \<^verbatim>\<open>json.loads\<close> reads as that
  document, and the one \<^verbatim>\<open>json.dump\<close> with \<^verbatim>\<open>indent=2\<close> writes for it.\<close>

definition tiny_metadata :: json where
  "tiny_metadata = JObj [(''Study'', JObj [])]"

definition text_compact :: string where
  \<open>text_compact = ''{"Study":{}}''\<close>

definition text_spaced :: string where
  \<open>text_spaced = ''{ "Study" : { } }''\<close>

definition text_indented :: string where
  \<open>text_indented = ''{'' @ [CHR 0x0A] @ ''  "Study": {}'' @ [CHR 0x0A] @ ''}''\<close>

definition example_args :: args where
  "example_args =
     \<lparr>datastore_id = ''d1'', image_set_id = ''is1'', output_dir = ''out'', max_frames = 0,
      region = None\<rparr>"

text \<open>The command line of that namespace.\<close>

definition example_argv :: "string list" where
  "example_argv = [''--datastore-id'', ''d1'', ''--image-set-id'', ''is1'', ''--output-dir'', ''out'']"

text \<open>An outside world in which everything succeeds but the second frame request; any
  command line other than the one above is a usage error.\<close>

definition example_env :: env where
  "example_env =
     \<lparr>parse_args = (\<lambda>argv. if argv = example_argv then Inr example_args else Inl 2),
      mkdir = (\<lambda>p. None),
      create_client = (\<lambda>r. None),
      remote_metadata = (\<lambda>d s. Inr [31, 139, 8]),
      gunzip_decode = (\<lambda>b. Inr ''{}''),
      json_loads = (\<lambda>t. Inr example_metadata),
      metadata_write = (\<lambda>p. Written),
      remote_frame = (\<lambda>i d s f. if i = 1 then Inl ''throttled'' else Inr [1, 2, 3]),
      frame_write = (\<lambda>i p. Written),
      manifest_write = (\<lambda>p. Written),
      json_dumps = (\<lambda>v. if v = tiny_metadata then text_indented else []),
      py_repr = (\<lambda>v. ''?'')\<rparr>"

text \<open>Variants: the metadata call is refused; the output directory cannot be created; the
  disk is full when the manifest is written.\<close>

definition denied_env :: env where
  "denied_env = example_env\<lparr>remote_metadata := (\<lambda>d s. Inl ''AccessDenied'')\<rparr>"

definition readonly_env :: env where
  "readonly_env = example_env\<lparr>mkdir := (\<lambda>p. Some ''Permission denied'')\<rparr>"

definition full_disk_env :: env where
  "full_disk_env = example_env\<lparr>manifest_write := (\<lambda>p. WriteFails ''No space left on device'')\<rparr>"

text \<open>Two worlds whose remote service holds the small document, as the compact text in one
  and as the spaced text in the other; the two byte lists stand for the compressed
  texts.\<close>

definition compact_env :: env where
  "compact_env =
     example_env\<lparr>remote_metadata := (\<lambda>d s. Inr [31, 139, 8, 0]),
                 gunzip_decode := (\<lambda>b. if b = [31, 139, 8, 0] then Inr text_compact
                                      else if b = [31, 139, 8, 1] then Inr text_spaced
                                      else Inl ''Not a gzipped file''),
                 json_loads := (\<lambda>t. if t = text_compact \<or> t = text_spaced then Inr tiny_metadata
                                   else Inl ''Expecting value'')\<rparr>"

definition spaced_env :: env where
  "spaced_env = compact_env\<lparr>remote_metadata := (\<lambda>d s. Inr [31, 139, 8, 1])\<rparr>"

definition empty_world :: world where
  "empty_world = \<lparr>files = Map.empty, trace = []\<rparr>"

definition example_frames :: "frame_info list" where
  "example_frames =
     [\<lparr>frameId = JStr ''f1'', seriesId = ''s1'', instanceId = ''i1''\<rparr>,
      \<lparr>frameId = JStr ''f2'', seriesId = ''s1'', instanceId = ''i1''\<rparr>,
      \<lparr>frameId = JStr ''f3'', seriesId = ''s2'', instanceId = ''i3''\<rparr>]"

definition example_manifest :: manifest where
  "example_manifest =
     \<lparr>datastoreId = ''d1'', imageSetId = ''is1'', totalFrames = 3,
      frames =
        [JObj [(''frameId'', JStr ''f1''), (''seriesId'', JStr ''s1''), (''instanceId'', JStr ''i1''),
               (''filename'', JStr ''s1_i1_f1.htj2k''), (''size'', JInt 3)],
         JObj [(''frameId'', JStr ''f2''), (''seriesId'', JStr ''s1''), (''instanceId'', JStr ''i1''),
               (''error'', JStr ''throttled'')],
         JObj [(''frameId'', JStr ''f3''), (''seriesId'', JStr ''s2''), (''instanceId'', JStr ''i3''),
               (''filename'', JStr ''s2_i3_f3.htj2k''), (''size'', JInt 3)]]\<rparr>"

text \<open>A descriptor whose series identifier contains a slash.\<close>

definition slash_frame :: frame_info where
  "slash_frame = \<lparr>frameId = JStr ''f'', seriesId = ''a/b'', instanceId = ''i''\<rparr>"

section \<open>Auxiliary facts\<close>

lemma dict_get_Inr:
  "dict_get v k d = Inr x \<Longrightarrow> \<exists>kvs. v = JObj kvs \<and> x = (case map_of kvs k of Some y \<Rightarrow> y | None \<Rightarrow> d)"
  by (cases v) auto

lemma dict_get_ID: "dict_get frame ''ID'' JNull = Inr x \<Longrightarrow> x = ref_id frame"
  by (cases frame) (auto simp: ref_id_def field_of_def)

lemma kept_Nil: "kept [] = []"
  by (simp add: kept_def)

lemma kept_append: "kept (xs @ ys) = kept xs @ kept ys"
  by (simp add: kept_def)

lemma kept_Cons:
  "kept (r # rs) =
     (if truthy (ref_id (snd (snd r)))
      then \<lparr>frameId = ref_id (snd (snd r)), seriesId = fst r, instanceId = fst (snd r)\<rparr> # kept rs
      else kept rs)"
  by (simp add: kept_def)

lemma frames_loop_kept:
  "frames_loop sid iid frs acc = Inr r \<Longrightarrow> r = acc @ kept (map (\<lambda>f. (sid, iid, f)) frs)"
proof (induction frs arbitrary: acc)
  case Nil
  then show ?case by (simp add: kept_Nil)
next
  case (Cons frame rest)
  from Cons.prems obtain frame_id where g: "dict_get frame ''ID'' JNull = Inr frame_id"
    by (auto split: sum.splits)
  then have fid: "frame_id = ref_id frame" by (rule dict_get_ID)
  show ?case
  proof (cases "truthy frame_id")
    case True
    with Cons.prems g have "frames_loop sid iid rest (acc @ [\<lparr>frameId = frame_id, seriesId = sid, instanceId = iid\<rparr>]) = Inr r"
      by simp
    from Cons.IH [OF this] True fid show ?thesis by (simp add: kept_Cons)
  next
    case False
    with Cons.prems g have "frames_loop sid iid rest acc = Inr r" by simp
    from Cons.IH [OF this] False fid show ?thesis by (simp add: kept_Cons)
  qed
qed

lemma iterate_refs:
  assumes "dict_get instance_data ''ImageFrames'' (JArr []) = Inr image_frames"
    and "iterate image_frames = Inr frs"
    and "frames_loop sid iid frs acc = Inr r"
  shows "frs = frame_refs_of instance_data"
proof -
  from assms(1) obtain kvs where kvs: "instance_data = JObj kvs"
    and img: "image_frames = (case map_of kvs ''ImageFrames'' of Some y \<Rightarrow> y | None \<Rightarrow> JArr [])"
    by (auto dest: dict_get_Inr)
  show ?thesis
  proof (cases image_frames)
    case (JArr xs)
    with assms(2) img kvs show ?thesis
      by (auto simp: frame_refs_of_def field_of_def split: option.splits)
  next
    case (JObj items)
    with assms(2) have fr: "frs = map (\<lambda>kv. JStr (fst kv)) items" by simp
    have "items = []"
    proof (cases items)
      case (Cons a list)
      with fr assms(3) show ?thesis by simp
    qed simp
    with fr JObj img kvs show ?thesis
      by (auto simp: frame_refs_of_def field_of_def split: option.splits)
  next
    case (JStr s)
    with assms(2) have fr: "frs = map (\<lambda>c. JStr [c]) s" by simp
    have "s = []"
    proof (cases s)
      case (Cons a list)
      with fr assms(3) show ?thesis by simp
    qed simp
    with fr JStr img kvs show ?thesis
      by (auto simp: frame_refs_of_def field_of_def split: option.splits)
  qed (use assms(2) in simp_all)
qed

lemma instances_loop_kept:
  "instances_loop sid items acc = Inr r \<Longrightarrow> r = acc @ kept (instance_refs sid items)"
proof (induction items arbitrary: acc)
  case Nil
  then show ?case by (simp add: kept_Nil instance_refs_def)
next
  case (Cons item rest)
  obtain iid idata where item: "item = (iid, idata)" by (cases item)
  from Cons.prems item obtain image_frames frs acc'
    where g: "dict_get idata ''ImageFrames'' (JArr []) = Inr image_frames"
      and it: "iterate image_frames = Inr frs"
      and fl: "frames_loop sid iid frs acc = Inr acc'"
      and rest: "instances_loop sid rest acc' = Inr r"
    by (auto split: sum.splits)
  have "frs = frame_refs_of idata" using g it fl by (rule iterate_refs)
  with frames_loop_kept [OF fl] have "acc' = acc @ kept (map (\<lambda>f. (sid, iid, f)) (frame_refs_of idata))"
    by simp
  with Cons.IH [OF rest] item show ?case
    by (simp add: instance_refs_def kept_append)
qed

lemma series_loop_kept:
  "series_loop items acc = Inr r \<Longrightarrow>
   r = acc @ kept (concat (map (\<lambda>s. instance_refs (fst s) (instances_of (snd s))) items))"
proof (induction items arbitrary: acc)
  case Nil
  then show ?case by (simp add: kept_Nil)
next
  case (Cons item rest)
  obtain sid sdata where item: "item = (sid, sdata)" by (cases item)
  from Cons.prems item obtain instances insts acc'
    where g: "dict_get sdata ''Instances'' (JObj []) = Inr instances"
      and it: "dict_items instances = Inr insts"
      and il: "instances_loop sid insts acc = Inr acc'"
      and rest: "series_loop rest acc' = Inr r"
    by (auto split: sum.splits)
  from g it have "insts = instances_of sdata"
    by (cases instances) (auto dest!: dict_get_Inr simp: instances_of_def children_def field_of_def split: option.splits)
  with instances_loop_kept [OF il] have "acc' = acc @ kept (instance_refs sid (instances_of sdata))"
    by simp
  with Cons.IH [OF rest] item show ?case
    by (simp add: kept_append)
qed

lemma extract_frame_ids_kept:
  assumes "extract_frame_ids metadata = Inr ds"
  shows "ds = kept (frame_refs metadata)"
proof -
  from assms obtain study series_dict items
    where g1: "dict_get metadata ''Study'' (JObj []) = Inr study"
      and g2: "dict_get study ''Series'' (JObj []) = Inr series_dict"
      and it: "dict_items series_dict = Inr items"
      and sl: "series_loop items [] = Inr ds"
    by (auto simp: extract_frame_ids_def split: sum.splits)
  from g1 g2 it have "items = series_of metadata"
    by (cases series_dict)
       (auto dest!: dict_get_Inr simp: series_of_def children_def field_of_def split: option.splits)
  with series_loop_kept [OF sl] show ?thesis by (simp add: frame_refs_def)
qed

lemma length_frame_refs: "length (frame_refs metadata) = frame_ref_count metadata"
  by (simp add: frame_refs_def instance_refs_def frame_ref_count_def length_concat comp_def)

lemma kept_skipped: "length (kept refs) + skipped refs = length refs"
  by (simp add: kept_def skipped_def sum_length_filter_compl)

lemma frames_loop_wf:
  "list_all wf_frame frs \<Longrightarrow> \<exists>r. frames_loop sid iid frs acc = Inr r"
proof (induction frs arbitrary: acc)
  case Nil
  then show ?case by simp
next
  case (Cons frame rest)
  from Cons.prems have "wf_frame frame" and rest: "list_all wf_frame rest" by simp_all
  then obtain kvs where "frame = JObj kvs"
    by (cases frame) (auto simp: wf_frame_def field_of_def)
  with Cons.IH [OF rest] show ?case by simp
qed

lemma instances_loop_wf:
  "list_all (\<lambda>i. wf_instance (snd i)) items \<Longrightarrow> \<exists>r. instances_loop sid items acc = Inr r"
proof (induction items arbitrary: acc)
  case Nil
  then show ?case by simp
next
  case (Cons item rest)
  obtain iid idata where item: "item = (iid, idata)" by (cases item)
  from Cons.prems item have wf: "wf_instance idata" and rest: "list_all (\<lambda>i. wf_instance (snd i)) rest"
    by simp_all
  from wf obtain kvs where kvs: "idata = JObj kvs"
    by (cases idata) (auto simp: wf_instance_def)
  from wf kvs obtain frs
    where g: "dict_get idata ''ImageFrames'' (JArr []) = Inr (JArr frs)" and fr: "list_all wf_frame frs"
    by (cases "map_of kvs ''ImageFrames''") (auto simp: wf_instance_def split: json.splits)
  from frames_loop_wf [OF fr] obtain acc' where "frames_loop sid iid frs acc = Inr acc'" by blast
  with g item Cons.IH [OF rest, of acc'] show ?case by simp
qed

lemma series_loop_wf:
  "list_all (\<lambda>s. wf_series (snd s)) items \<Longrightarrow> \<exists>r. series_loop items acc = Inr r"
proof (induction items arbitrary: acc)
  case Nil
  then show ?case by simp
next
  case (Cons item rest)
  obtain sid sdata where item: "item = (sid, sdata)" by (cases item)
  from Cons.prems item have wf: "wf_series sdata" and rest: "list_all (\<lambda>s. wf_series (snd s)) rest"
    by simp_all
  from wf obtain kvs where kvs: "sdata = JObj kvs"
    by (cases sdata) (auto simp: wf_series_def)
  from wf kvs obtain insts
    where g: "dict_get sdata ''Instances'' (JObj []) = Inr (JObj insts)"
      and ins: "list_all (\<lambda>i. wf_instance (snd i)) insts"
    by (cases "map_of kvs ''Instances''") (auto simp: wf_series_def split: json.splits)
  from instances_loop_wf [OF ins] obtain acc' where "instances_loop sid insts acc = Inr acc'" by blast
  with g item Cons.IH [OF rest, of acc'] show ?case by simp
qed

lemma well_formed_returns:
  assumes "well_formed metadata"
  shows "\<exists>ds. extract_frame_ids metadata = Inr ds"
proof -
  from assms obtain kvs where kvs: "metadata = JObj kvs"
    by (cases metadata) (auto simp: well_formed_def)
  from assms kvs obtain study where g1: "dict_get metadata ''Study'' (JObj []) = Inr (JObj study)"
    and st: "case map_of study ''Series'' of None \<Rightarrow> True
             | Some (JObj series) \<Rightarrow> list_all (\<lambda>s. wf_series (snd s)) series | Some _ \<Rightarrow> False"
    by (cases "map_of kvs ''Study''") (auto simp: well_formed_def split: json.splits)
  from st obtain series where g2: "dict_get (JObj study) ''Series'' (JObj []) = Inr (JObj series)"
    and ser: "list_all (\<lambda>s. wf_series (snd s)) series"
    by (cases "map_of study ''Series''") (auto split: json.splits)
  from series_loop_wf [OF ser] obtain r where "series_loop series [] = Inr r" by blast
  with g1 g2 show ?thesis by (simp add: extract_frame_ids_def)
qed

lemma wf_frame_truthy: "wf_frame frame \<Longrightarrow> truthy (ref_id frame)"
  by (auto simp: wf_frame_def ref_id_def split: option.splits json.splits)

lemma skipped_zero: "list_all (\<lambda>r. wf_frame (snd (snd r))) refs \<Longrightarrow> skipped refs = 0"
  by (auto simp: skipped_def list_all_iff filter_empty_conv dest: wf_frame_truthy)

lemma wf_instance_refs: "wf_instance idata \<Longrightarrow> list_all wf_frame (frame_refs_of idata)"
  by (cases idata) (auto simp: wf_instance_def frame_refs_of_def field_of_def split: option.splits json.splits)

lemma wf_series_instances: "wf_series sdata \<Longrightarrow> list_all (\<lambda>i. wf_instance (snd i)) (instances_of sdata)"
  by (cases sdata) (auto simp: wf_series_def instances_of_def children_def field_of_def split: option.splits json.splits)

lemma well_formed_series: "well_formed metadata \<Longrightarrow> list_all (\<lambda>s. wf_series (snd s)) (series_of metadata)"
  by (cases metadata) (auto simp: well_formed_def series_of_def children_def field_of_def split: option.splits json.splits)

lemma well_formed_refs:
  assumes "well_formed metadata"
  shows "list_all (\<lambda>r. wf_frame (snd (snd r))) (frame_refs metadata)"
proof -
  have "wf_frame f" if "s \<in> set (series_of metadata)" and "i \<in> set (instances_of (snd s))"
    and "f \<in> set (frame_refs_of (snd i))" for s i f
  proof -
    from well_formed_series [OF assms] that(1) have "wf_series (snd s)" by (simp add: list_all_iff)
    from wf_series_instances [OF this] that(2) have "wf_instance (snd i)" by (simp add: list_all_iff)
    from wf_instance_refs [OF this] that(3) show ?thesis by (simp add: list_all_iff)
  qed
  then show ?thesis
    by (auto simp: frame_refs_def instance_refs_def list_all_iff)
qed

lemma split_slash_nonempty: "split_slash s \<noteq> []"
  by (induction s) (auto split: list.splits)

lemma split_slash_plain: "CHR ''/'' \<notin> set s \<Longrightarrow> split_slash s = [s]"
  by (induction s) auto

lemma split_slash_append:
  "CHR ''/'' \<notin> set t \<Longrightarrow>
   split_slash (s @ t) = butlast (split_slash s) @ [last (split_slash s) @ t]"
proof (induction s)
  case Nil
  then show ?case by (simp add: split_slash_plain)
next
  case (Cons c cs)
  then have IH: "split_slash (cs @ t) = butlast (split_slash cs) @ [last (split_slash cs) @ t]" by simp
  show ?case
  proof (cases "c = CHR ''/''")
    case True
    with IH show ?thesis by (simp add: split_slash_nonempty)
  next
    case False
    obtain w ws where ws: "split_slash cs = w # ws"
      using split_slash_nonempty [of cs] by (cases "split_slash cs") auto
    show ?thesis
    proof (cases ws)
      case Nil
      with False ws IH show ?thesis by simp
    next
      case (Cons v vs)
      with False ws IH show ?thesis by simp
    qed
  qed
qed

lemma last_filter: "xs \<noteq> [] \<Longrightarrow> P (last xs) \<Longrightarrow> last (filter P xs) = last xs"
  by (induction xs) (auto simp: filter_empty_conv)

lemma filter_last_nonempty: "xs \<noteq> [] \<Longrightarrow> P (last xs) \<Longrightarrow> filter P xs \<noteq> []"
  by (auto simp: filter_empty_conv)

lemma path_parts_ext:
  "path_parts (s @ ''.htj2k'') \<noteq> [] \<and> last (path_parts (s @ ''.htj2k'')) = last (split_slash s) @ ''.htj2k''"
proof -
  let ?P = "\<lambda>w. w \<noteq> [] \<and> w \<noteq> ''.''"
  have sp: "split_slash (s @ ''.htj2k'') = butlast (split_slash s) @ [last (split_slash s) @ ''.htj2k'']"
    by (rule split_slash_append) simp
  then have l: "last (split_slash (s @ ''.htj2k'')) = last (split_slash s) @ ''.htj2k''" by simp
  have P: "?P (last (split_slash (s @ ''.htj2k'')))"
    unfolding l by (cases "last (split_slash s)") auto
  from last_filter [of "split_slash (s @ ''.htj2k'')" ?P, OF split_slash_nonempty P]
    filter_last_nonempty [of "split_slash (s @ ''.htj2k'')" ?P, OF split_slash_nonempty P] l
  show ?thesis by (simp add: path_parts_def)
qed

lemma path_name_joinpath_ext:
  "path_name (joinpath p (s @ ''.htj2k'')) = last (split_slash s) @ ''.htj2k''"
  using path_parts_ext [of s]
  by (auto simp: path_name_def joinpath_def Path_def)

lemma frame_filename_ext:
  "frame_filename env fi =
     (seriesId fi @ ''_'' @ instanceId fi @ ''_'' @ format_value env (frameId fi)) @ ''.htj2k''"
  by (simp add: frame_filename_def)

lemma frame_path_name:
  "\<exists>xs. path_name (joinpath out (frame_filename env fi)) = xs @ ''.htj2k''"
  unfolding frame_filename_ext path_name_joinpath_ext by blast

lemma path_name_plain:
  assumes "CHR ''/'' \<notin> set s"
  shows "path_name (joinpath p (s @ ''.htj2k'')) = s @ ''.htj2k''"
    and "joinpath p (s @ ''.htj2k'') = p\<lparr>parts := parts p @ [s @ ''.htj2k'']\<rparr>"
proof -
  from assms show "path_name (joinpath p (s @ ''.htj2k'')) = s @ ''.htj2k''"
    by (simp add: path_name_joinpath_ext split_slash_plain)
  from assms have "CHR ''/'' \<notin> set (s @ ''.htj2k'')" by simp
  then have sp: "split_slash (s @ ''.htj2k'') = [s @ ''.htj2k'']" by (rule split_slash_plain)
  have r: "path_root (s @ ''.htj2k'') = []"
    using assms by (cases s) (auto simp: path_root_def)
  have "s @ ''.htj2k'' \<noteq> ''.''" by (cases s) auto
  with sp r show "joinpath p (s @ ''.htj2k'') = p\<lparr>parts := parts p @ [s @ ''.htj2k'']\<rparr>"
    by (simp add: joinpath_def path_parts_def)
qed

lemma metadata_path_name: "path_name (joinpath p ''metadata.json'') = ''metadata.json''"
  by (simp add: path_name_def joinpath_def path_root_def path_parts_def)

lemma manifest_path_name: "path_name (joinpath p ''manifest.json'') = ''manifest.json''"
  by (simp add: path_name_def joinpath_def path_root_def path_parts_def)

lemma entry_info_success: "entry_info (success_record fi name n) = Some fi"
  by (simp add: entry_info_def success_record_def frame_info_items_def field_of_def)

lemma entry_info_error: "entry_info (error_record fi msg) = Some fi"
  by (simp add: entry_info_def error_record_def frame_info_items_def field_of_def)

lemma success_record_kind:
  "is_success_record (success_record fi name n) \<and> \<not> is_error_record (success_record fi name n)"
  by (simp add: is_success_record_def is_error_record_def has_key_def success_record_def
      frame_info_items_def field_of_def)

lemma error_record_kind:
  "is_error_record (error_record fi msg) \<and> \<not> is_success_record (error_record fi msg)
   \<and> field_of (error_record fi msg) ''error'' = Some (JStr msg)"
  by (simp add: is_success_record_def is_error_record_def has_key_def error_record_def
      frame_info_items_def field_of_def)

lemma frame_entry_info: "entry_info (frame_entry env a out i fi) = Some fi"
  by (simp add: frame_entry_def entry_info_success entry_info_error split: sum.splits)

lemma frame_entry_kind:
  "is_success_record (frame_entry env a out i fi) \<noteq> is_error_record (frame_entry env a out i fi)"
  using success_record_kind error_record_kind
  by (simp add: frame_entry_def split: sum.splits)

lemma process_frame_manifest:
  "snd (process_frame env a out i fi (w, m)) = m\<lparr>frames := frames m @ [frame_entry env a out i fi]\<rparr>"
  by (simp add: process_frame_def fetch_image_frame_def save_frame_def write_file_def
      frame_entry_def frame_outcome_def Let_def
      split: sum.splits write_outcome.splits)

lemma process_frames_manifest:
  "snd (process_frames env a out i fis (w, m)) =
     m\<lparr>frames := frames m @ map (\<lambda>(k, fi). frame_entry env a out k fi) (List.enumerate i fis)\<rparr>"
proof (induction fis arbitrary: i w m)
  case Nil
  show ?case by simp
next
  case (Cons fi rest)
  obtain w1 m1 where st: "process_frame env a out i fi (w, m) = (w1, m1)"
    by (cases "process_frame env a out i fi (w, m)")
  then have "m1 = m\<lparr>frames := frames m @ [frame_entry env a out i fi]\<rparr>"
    using process_frame_manifest [of env a out i fi w m] by simp
  with st Cons.IH [of "Suc i" w1 m1] show ?case by simp
qed

lemma process_frame_files:
  "p \<noteq> joinpath out (frame_filename env fi) \<Longrightarrow>
   files (fst (process_frame env a out i fi (w, m))) p = files w p"
  by (simp add: process_frame_def fetch_image_frame_def save_frame_def write_file_def emit_def Let_def
      split: sum.splits write_outcome.splits)

lemma process_frame_trace:
  "\<exists>evs. trace (fst (process_frame env a out i fi (w, m))) = trace w @ evs"
  by (simp add: process_frame_def fetch_image_frame_def save_frame_def write_file_def emit_def Let_def
      split: sum.splits write_outcome.splits)

lemma process_frames_files:
  assumes "\<And>xs. path_name p \<noteq> xs @ ''.htj2k''"
  shows "files (fst (process_frames env a out i fis (w, m))) p = files w p"
proof (induction fis arbitrary: i w m)
  case Nil
  show ?case by simp
next
  case (Cons fi rest)
  obtain w1 m1 where st: "process_frame env a out i fi (w, m) = (w1, m1)"
    by (cases "process_frame env a out i fi (w, m)")
  have "p \<noteq> joinpath out (frame_filename env fi)"
    using assms frame_path_name [of out env fi] by auto
  from process_frame_files [OF this, of a i w m] st have "files w1 p = files w p" by simp
  with st Cons.IH [of "Suc i" w1 m1] show ?case by simp
qed

lemma process_frames_trace:
  "\<exists>evs. trace (fst (process_frames env a out i fis (w, m))) = trace w @ evs"
proof (induction fis arbitrary: i w m)
  case Nil
  show ?case by simp
next
  case (Cons fi rest)
  obtain w1 m1 where st: "process_frame env a out i fi (w, m) = (w1, m1)"
    by (cases "process_frame env a out i fi (w, m)")
  from process_frame_trace [of env a out i fi w m] st obtain evs where "trace w1 = trace w @ evs"
    by auto
  moreover from Cons.IH [of "Suc i" w1 m1] obtain evs'
    where "trace (fst (process_frames env a out (Suc i) rest (w1, m1))) = trace w1 @ evs'" by blast
  ultimately show ?case using st by simp
qed

lemma write_file_Written:
  "write_file Written p c w = (w\<lparr>files := (files w)(p \<mapsto> c), trace := trace w @ [OpenFile p]\<rparr>, None)"
  by (simp add: write_file_def emit_def)

lemma write_file_None:
  "write_file outcome p c w = (w', None) \<Longrightarrow> outcome = Written"
  by (auto simp: write_file_def split: write_outcome.splits)

lemma write_file_other:
  "q \<noteq> p \<Longrightarrow> files (fst (write_file outcome p c w)) q = files w q"
  by (simp add: write_file_def emit_def split: write_outcome.splits)

lemma write_file_trace:
  "trace (fst (write_file outcome p c w)) = trace w @ [OpenFile p]"
  by (simp add: write_file_def emit_def split: write_outcome.splits)

lemma entries_info:
  "map entry_info (map (\<lambda>(k, fi). frame_entry env a out k fi) (List.enumerate i fis)) = map Some fis"
  by (induction fis arbitrary: i) (simp_all add: frame_entry_info)

lemma entries_kind:
  "list_all (\<lambda>e. is_success_record e \<noteq> is_error_record e)
     (map (\<lambda>(k, fi). frame_entry env a out k fi) (List.enumerate i fis))"
  using frame_entry_kind by (auto simp: list_all_iff)

lemma main_loop_Inr:
  assumes "main_loop env a w = (w', Inr m)"
  shows "\<exists>w2 md ds. resolve env a w = (w2, Inr md)
          \<and> metadata_write env (metadata_path a) = Written
          \<and> extract_frame_ids md = Inr ds
          \<and> datastoreId m = datastore_id a \<and> imageSetId m = image_set_id a
          \<and> totalFrames m = int (length (limit_frames (max_frames a) ds))
          \<and> frames m = map (\<lambda>(k, fi). frame_entry env a (Path (output_dir a)) k fi)
                          (List.enumerate 0 (limit_frames (max_frames a) ds))"
proof -
  obtain w2 r where res: "resolve env a w = (w2, r)" by (cases "resolve env a w")
  with assms obtain md where md: "r = Inr md"
    by (cases r) (auto simp: main_loop_def Let_def)
  obtain w3 r3 where wr: "write_file (metadata_write env (metadata_path a)) (metadata_path a) (Document md) w2 = (w3, r3)"
    by (cases "write_file (metadata_write env (metadata_path a)) (metadata_path a) (Document md) w2")
  with assms res md have r3: "r3 = None"
    by (cases r3) (auto simp: main_loop_def Let_def metadata_path_def)
  with wr have written: "metadata_write env (metadata_path a) = Written" by (auto dest: write_file_None)
  from assms res md wr r3 obtain ds where ds: "extract_frame_ids md = Inr ds"
    by (cases "extract_frame_ids md") (auto simp: main_loop_def Let_def metadata_path_def)
  let ?fis = "limit_frames (max_frames a) ds"
  let ?m0 = "\<lparr>datastoreId = datastore_id a, imageSetId = image_set_id a,
              totalFrames = int (length ?fis), frames = []\<rparr>"
  from assms res md wr r3 ds have "m = snd (process_frames env a (Path (output_dir a)) 0 ?fis (w3, ?m0))"
    by (auto simp: main_loop_def Let_def metadata_path_def split: prod.splits)
  then have "m = ?m0\<lparr>frames := map (\<lambda>(k, fi). frame_entry env a (Path (output_dir a)) k fi)
                          (List.enumerate 0 ?fis)\<rparr>"
    by (simp add: process_frames_manifest)
  with res md written ds show ?thesis by simp
qed

lemma dict_get_raises: "dict_get v k d = Inl e \<Longrightarrow> e = AttributeError v ''get''"
  by (cases v) auto

lemma dict_items_raises: "dict_items v = Inl e \<Longrightarrow> e = AttributeError v ''items''"
  by (cases v) auto

lemma iterate_raises: "iterate v = Inl e \<Longrightarrow> e = TypeError v"
  by (cases v) auto

lemma frames_loop_raises: "frames_loop sid iid frs acc = Inl e \<Longrightarrow> e \<noteq> SystemExit n"
  by (induction frs arbitrary: acc) (auto split: sum.splits dest: dict_get_raises)

lemma instances_loop_raises: "instances_loop sid items acc = Inl e \<Longrightarrow> e \<noteq> SystemExit n"
proof (induction items arbitrary: acc)
  case Nil
  then show ?case by simp
next
  case (Cons item rest)
  obtain iid idata where "item = (iid, idata)" by (cases item)
  with Cons show ?case
    by (auto split: sum.splits dest: dict_get_raises iterate_raises frames_loop_raises)
qed

lemma series_loop_raises: "series_loop items acc = Inl e \<Longrightarrow> e \<noteq> SystemExit n"
proof (induction items arbitrary: acc)
  case Nil
  then show ?case by simp
next
  case (Cons item rest)
  obtain sid sdata where "item = (sid, sdata)" by (cases item)
  with Cons show ?case
    by (auto split: sum.splits dest: dict_get_raises dict_items_raises instances_loop_raises)
qed

lemma extract_frame_ids_raises: "extract_frame_ids metadata = Inl e \<Longrightarrow> e \<noteq> SystemExit n"
  by (auto simp: extract_frame_ids_def split: sum.splits
      dest: dict_get_raises dict_items_raises series_loop_raises)

lemma resolve_raises: "resolve env a w = (w2, Inl e) \<Longrightarrow> \<exists>msg. e = External msg"
  by (auto simp: resolve_def get_medical_imaging_client_def get_image_set_metadata_def Let_def
      split: option.splits sum.splits)

lemma main_loop_raises:
  assumes "main_loop env a w = (w4, Inl e)"
  shows "e \<noteq> SystemExit n"
proof -
  obtain w2 r where res: "resolve env a w = (w2, r)" by (cases "resolve env a w")
  show ?thesis
  proof (cases r)
    case (Inl e')
    with assms res have "e = e'" by (simp add: main_loop_def Let_def)
    with res Inl resolve_raises [of env a w w2 e'] show ?thesis by auto
  next
    case (Inr md)
    show ?thesis
    proof (cases "extract_frame_ids md")
      case (Inl e')
      from assms res Inr Inl have "e = e' \<or> (\<exists>msg. e = External msg)"
        by (auto simp: main_loop_def Let_def split: prod.splits option.splits)
      with extract_frame_ids_raises [OF Inl, of n] show ?thesis by auto
    next
      case ds: (Inr ds)
      from assms res Inr ds have "\<exists>msg. e = External msg"
        by (auto simp: main_loop_def Let_def split: prod.splits option.splits)
      then show ?thesis by auto
    qed
  qed
qed

lemma exit_code_raised: "(\<And>n. e \<noteq> SystemExit n) \<Longrightarrow> exit_code (Inl e) = 1"
  by (cases e) (auto simp: exit_code_def)

lemma resolve_fails:
  assumes "metadata_resolution_fails env a"
  shows "\<exists>w2 e evs. resolve env a w = (w2, Inl e) \<and> files w2 = files w
           \<and> trace w2 = trace w @ evs \<and> list_all setup_event evs"
proof (cases "mkdir env (Path (output_dir a))")
  case (Some msg)
  then show ?thesis by (simp add: resolve_def emit_def Let_def setup_event_def)
next
  case None
  show ?thesis
  proof (cases "create_client env (region a)")
    case (Some msg)
    with None show ?thesis
      by (simp add: resolve_def get_medical_imaging_client_def emit_def Let_def setup_event_def)
  next
    case cl: None
    from assms obtain e where
      "snd (get_image_set_metadata env (datastore_id a) (image_set_id a) w0) = Inl e" for w0
      by (auto simp: metadata_resolution_fails_def get_image_set_metadata_def isl_def
          split: sum.splits)
    with None cl show ?thesis
      by (simp add: resolve_def get_medical_imaging_client_def get_image_set_metadata_def
          emit_def Let_def setup_event_def split: sum.splits)
  qed
qed

lemma main_with_aborts:
  assumes "metadata_resolution_fails env a"
  shows "exit_code (snd (main_with env a w)) \<noteq> 0
       \<and> files (fst (main_with env a w)) = files w
       \<and> (\<exists>evs. trace (fst (main_with env a w)) = trace w @ evs \<and> list_all setup_event evs)"
proof -
  from resolve_fails [OF assms] obtain w2 e evs
    where "resolve env a w = (w2, Inl e)" and "files w2 = files w"
      and "trace w2 = trace w @ evs" and "list_all setup_event evs"
    by blast
  moreover from this have "main_loop env a w = (w2, Inl e)"
    by (simp add: main_loop_def Let_def)
  moreover from this have "exit_code (Inl e) = 1"
    using main_loop_raises by (intro exit_code_raised) blast
  ultimately show ?thesis
    by (simp add: main_with_def)
qed

lemma resolve_Inr:
  assumes "resolve env a w = (w2, Inr md)"
  shows "files w2 = files w
       \<and> trace w2 = trace w @ [MakeDirs (Path (output_dir a)), CreateClient,
                                 MetadataCall (datastore_id a) (image_set_id a)]"
  using assms
  by (auto simp: resolve_def get_medical_imaging_client_def get_image_set_metadata_def emit_def Let_def
      split: option.splits sum.splits)

lemma not_htj2k_metadata: "''metadata.json'' \<noteq> xs @ ''.htj2k''"
proof
  assume "''metadata.json'' = xs @ ''.htj2k''"
  then have "last ''metadata.json'' = last (xs @ ''.htj2k'')" by (rule arg_cong)
  then show False by simp
qed

lemma paths_differ: "manifest_path a \<noteq> metadata_path a"
proof
  assume "manifest_path a = metadata_path a"
  then have "path_name (manifest_path a) = path_name (metadata_path a)" by (rule arg_cong)
  then show False
    by (simp add: manifest_path_def metadata_path_def manifest_path_name metadata_path_name)
qed

lemma main_loop_world:
  assumes "resolve env a w = (w2, Inr md)"
    and "metadata_write env (metadata_path a) = Written"
  shows "files (fst (main_loop env a w)) (metadata_path a) = Some (Document md)
       \<and> (\<exists>evs. trace (fst (main_loop env a w)) = trace w2 @ OpenFile (metadata_path a) # evs)"
proof (cases "extract_frame_ids md")
  case (Inl e)
  with assms show ?thesis
    by (simp add: main_loop_def Let_def metadata_path_def [symmetric] write_file_Written)
next
  case (Inr ds)
  let ?w3 = "w2\<lparr>files := (files w2)(metadata_path a \<mapsto> Document md),
                trace := trace w2 @ [OpenFile (metadata_path a)]\<rparr>"
  let ?fis = "limit_frames (max_frames a) ds"
  let ?m0 = "\<lparr>datastoreId = datastore_id a, imageSetId = image_set_id a,
              totalFrames = int (length ?fis), frames = []\<rparr>"
  let ?st = "process_frames env a (Path (output_dir a)) 0 ?fis (?w3, ?m0)"
  from assms Inr have w4: "fst (main_loop env a w) = fst ?st"
    by (simp add: main_loop_def Let_def metadata_path_def [symmetric] write_file_Written split_def)
  have "path_name (metadata_path a) \<noteq> xs @ ''.htj2k''" for xs
    by (simp add: metadata_path_def metadata_path_name not_htj2k_metadata)
  then have "files (fst ?st) (metadata_path a) = files ?w3 (metadata_path a)"
    by (rule process_frames_files)
  moreover obtain evs where "trace (fst ?st) = trace ?w3 @ evs"
    using process_frames_trace by blast
  ultimately show ?thesis using w4 by simp
qed

lemma main_world:
  "fst (main_with env a w) =
     (case snd (main_loop env a w) of
        Inl e \<Rightarrow> fst (main_loop env a w)
      | Inr m \<Rightarrow> fst (write_file (manifest_write env (manifest_path a)) (manifest_path a)
                         (Document (manifest_json m)) (fst (main_loop env a w))))"
  by (simp add: main_with_def save_manifest_def manifest_path_def Let_def split: prod.splits sum.splits option.splits)

lemma main_with_metadata:
  assumes "resolve env a w = (w2, Inr md)"
    and "metadata_write env (metadata_path a) = Written"
  shows "files (fst (main_with env a w)) (metadata_path a) = Some (Document md)
       \<and> (\<exists>evs. trace (fst (main_with env a w)) =
                   trace w @ [MakeDirs (Path (output_dir a)), CreateClient,
                              MetadataCall (datastore_id a) (image_set_id a),
                              OpenFile (metadata_path a)] @ evs)"
proof -
  from main_loop_world [OF assms] obtain evs
    where f: "files (fst (main_loop env a w)) (metadata_path a) = Some (Document md)"
      and t: "trace (fst (main_loop env a w)) = trace w2 @ OpenFile (metadata_path a) # evs"
    by blast
  from resolve_Inr [OF assms(1)]
  have t2: "trace w2 = trace w @ [MakeDirs (Path (output_dir a)), CreateClient,
                                  MetadataCall (datastore_id a) (image_set_id a)]" by simp
  show ?thesis
  proof (cases "snd (main_loop env a w)")
    case (Inl e)
    with f t t2 show ?thesis by (simp add: main_world)
  next
    case (Inr m)
    with f t t2 paths_differ [of a] show ?thesis
      by (simp add: main_world write_file_other write_file_trace)
  qed
qed

lemma main_with_round_trip:
  assumes "snd (main_with env a w) = Inr n"
  shows "\<exists>doc entries.
           files (fst (main_with env a w)) (manifest_path a) = Some (Document doc)
         \<and> field_of doc ''frames'' = Some (JArr entries)
         \<and> field_of doc ''totalFrames'' = Some (JInt (int (length entries)))
         \<and> (\<exists>md ds. snd (resolve env a w) = Inr md \<and> extract_frame_ids md = Inr ds
                \<and> length entries = length (limit_frames (max_frames a) ds))"
proof -
  obtain w4 r where ml: "main_loop env a w = (w4, r)" by (cases "main_loop env a w")
  with assms obtain m where r: "r = Inr m"
    by (cases r) (auto simp: main_with_def)
  from assms ml r have "manifest_write env (manifest_path a) = Written"
    by (auto simp: main_with_def save_manifest_def manifest_path_def Let_def
        split: prod.splits option.splits dest: write_file_None)
  with ml r have f: "files (fst (main_with env a w)) (manifest_path a) = Some (Document (manifest_json m))"
    by (simp add: main_world write_file_Written)
  from main_loop_Inr [OF ml [unfolded r]] obtain w2 md ds
    where res: "resolve env a w = (w2, Inr md)" and ds: "extract_frame_ids md = Inr ds"
      and tot: "totalFrames m = int (length (limit_frames (max_frames a) ds))"
      and fr: "frames m = map (\<lambda>(k, fi). frame_entry env a (Path (output_dir a)) k fi)
                            (List.enumerate 0 (limit_frames (max_frames a) ds))"
    by blast
  from fr have len: "length (frames m) = length (limit_frames (max_frames a) ds)" by simp
  have "field_of (manifest_json m) ''frames'' = Some (JArr (frames m))"
    and "field_of (manifest_json m) ''totalFrames'' = Some (JInt (totalFrames m))"
    by (simp_all add: manifest_json_def field_of_def)
  with f res ds tot len show ?thesis by auto
qed

lemma main_with_exit:
  "exit_code (snd (main_with env a w)) =
     (if isl (snd (main_loop env a w)) \<or> manifest_write env (manifest_path a) \<noteq> Written then 1 else 0)"
proof (cases "main_loop env a w")
  case (Pair w4 r)
  show ?thesis
  proof (cases r)
    case (Inl e)
    from Pair Inl have "exit_code (Inl e) = 1"
      using main_loop_raises by (intro exit_code_raised) blast
    with Pair Inl show ?thesis by (simp add: main_with_def)
  next
    case (Inr m)
    with Pair show ?thesis
      by (cases "manifest_write env (manifest_path a)")
         (simp_all add: main_with_def save_manifest_def manifest_path_def [symmetric] write_file_def
           exit_code_def Let_def)
  qed
qed

lemma main_with_raises:
  "isl (snd (main_with env a w)) =
     (isl (snd (main_loop env a w)) \<or> manifest_write env (manifest_path a) \<noteq> Written)"
proof (cases "main_loop env a w")
  case (Pair w4 r)
  show ?thesis
  proof (cases r)
    case (Inl e)
    with Pair show ?thesis by (simp add: main_with_def)
  next
    case (Inr m)
    with Pair show ?thesis
      by (cases "manifest_write env (manifest_path a)")
         (simp_all add: main_with_def save_manifest_def manifest_path_def [symmetric] write_file_def Let_def)
  qed
qed

lemma main_loop_frames_independent:
  "isl (snd (main_loop (env\<lparr>remote_frame := rf, frame_write := fw\<rparr>) a w))
     = isl (snd (main_loop env a w))"
proof -
  have "resolve (env\<lparr>remote_frame := rf, frame_write := fw\<rparr>) a w = resolve env a w"
    by (simp add: resolve_def get_medical_imaging_client_def get_image_set_metadata_def Let_def
        cong: option.case_cong sum.case_cong)
  then show ?thesis
    by (simp add: main_loop_def Let_def split_def split: sum.splits option.splits)
qed

lemma main_parsed: "parse_args env argv = Inr a \<Longrightarrow> main env argv w = main_with env a w"
  by (simp add: main_def)

lemma main_usage: "parse_args env argv = Inl status \<Longrightarrow> main env argv w = (w, Inl (SystemExit status))"
  by (simp add: main_def)

lemma main_loop_completes:
  assumes "resolve env a w = (w2, Inr md)"
    and "metadata_write env (metadata_path a) = Written"
    and "extract_frame_ids md = Inr ds"
  shows "\<exists>w' m. main_loop env a w = (w', Inr m)"
  using assms
  by (simp add: main_loop_def Let_def metadata_path_def [symmetric] write_file_Written split_def)

lemmas example_defs =
  example_metadata_def gappy_metadata_def example_env_def example_args_def empty_world_def
  denied_env_def readonly_env_def full_disk_env_def compact_env_def spaced_env_def
  example_argv_def tiny_metadata_def text_compact_def text_spaced_def text_indented_def
  example_frames_def example_manifest_def slash_frame_def

lemmas script_defs =
  main_def main_with_def main_loop_def resolve_def get_medical_imaging_client_def get_image_set_metadata_def
  fetch_image_frame_def save_frame_def save_manifest_def process_frame_def write_file_def emit_def
  extract_frame_ids_def limit_frames_def frame_filename_def format_value_def
  success_record_def error_record_def frame_info_items_def manifest_json_def exit_code_def
  Path_def joinpath_def path_root_def path_parts_def path_name_def Let_def

lemmas reading_defs =
  field_of_def has_key_def is_success_record_def is_error_record_def entry_info_def
  well_formed_def wf_series_def wf_instance_def wf_frame_def
  frame_refs_def instance_refs_def series_of_def instances_of_def frame_refs_of_def children_def
  frame_ref_count_def ref_id_def kept_def skipped_def
  frame_outcome_def metadata_path_def manifest_path_def metadata_resolution_fails_def setup_event_def

lemma example_main_loop: "snd (main_loop example_env example_args empty_world) = Inr example_manifest"
  by (simp add: example_defs script_defs numeral_3_eq_3)

lemma frames_loop_nav:
  "list_all is_object frs \<Longrightarrow> \<exists>r. frames_loop sid iid frs acc = Inr r"
proof (induction frs arbitrary: acc)
  case Nil
  then show ?case by simp
next
  case (Cons frame rest)
  from Cons.prems have "is_object frame" and rest: "list_all is_object rest" by simp_all
  then obtain kvs where "frame = JObj kvs"
    by (cases frame) (auto simp: is_object_def)
  with Cons.IH [OF rest] show ?case by simp
qed

lemma instances_loop_nav:
  "list_all (\<lambda>i. nav_instance (snd i)) items \<Longrightarrow> \<exists>r. instances_loop sid items acc = Inr r"
proof (induction items arbitrary: acc)
  case Nil
  then show ?case by simp
next
  case (Cons item rest)
  obtain iid idata where item: "item = (iid, idata)" by (cases item)
  from Cons.prems item have nav: "nav_instance idata"
    and rest: "list_all (\<lambda>i. nav_instance (snd i)) rest"
    by simp_all
  from nav obtain kvs where kvs: "idata = JObj kvs"
    by (cases idata) (auto simp: nav_instance_def)
  from nav kvs obtain frs
    where g: "dict_get idata ''ImageFrames'' (JArr []) = Inr (JArr frs)" and fr: "list_all is_object frs"
    by (cases "map_of kvs ''ImageFrames''") (auto simp: nav_instance_def split: json.splits)
  from frames_loop_nav [OF fr] obtain acc' where "frames_loop sid iid frs acc = Inr acc'" by blast
  with g item Cons.IH [OF rest, of acc'] show ?case by simp
qed

lemma series_loop_nav:
  "list_all (\<lambda>s. nav_series (snd s)) items \<Longrightarrow> \<exists>r. series_loop items acc = Inr r"
proof (induction items arbitrary: acc)
  case Nil
  then show ?case by simp
next
  case (Cons item rest)
  obtain sid sdata where item: "item = (sid, sdata)" by (cases item)
  from Cons.prems item have nav: "nav_series sdata"
    and rest: "list_all (\<lambda>s. nav_series (snd s)) rest"
    by simp_all
  from nav obtain kvs where kvs: "sdata = JObj kvs"
    by (cases sdata) (auto simp: nav_series_def)
  from nav kvs obtain insts
    where g: "dict_get sdata ''Instances'' (JObj []) = Inr (JObj insts)"
      and ins: "list_all (\<lambda>i. nav_instance (snd i)) insts"
    by (cases "map_of kvs ''Instances''") (auto simp: nav_series_def split: json.splits)
  from instances_loop_nav [OF ins] obtain acc' where "instances_loop sid insts acc = Inr acc'" by blast
  with g item Cons.IH [OF rest, of acc'] show ?case by simp
qed

lemma navigable_returns:
  assumes "navigable metadata"
  shows "extract_frame_ids metadata = Inr (kept (frame_refs metadata))"
proof -
  from assms obtain kvs where kvs: "metadata = JObj kvs"
    by (cases metadata) (auto simp: navigable_def)
  from assms kvs obtain study where g1: "dict_get metadata ''Study'' (JObj []) = Inr (JObj study)"
    and st: "case map_of study ''Series'' of None \<Rightarrow> True
             | Some (JObj series) \<Rightarrow> list_all (\<lambda>s. nav_series (snd s)) series | Some _ \<Rightarrow> False"
    by (cases "map_of kvs ''Study''") (auto simp: navigable_def split: json.splits)
  from st obtain series where g2: "dict_get (JObj study) ''Series'' (JObj []) = Inr (JObj series)"
    and ser: "list_all (\<lambda>s. nav_series (snd s)) series"
    by (cases "map_of study ''Series''") (auto split: json.splits)
  from series_loop_nav [OF ser] obtain r where "series_loop series [] = Inr r" by blast
  with g1 g2 have "extract_frame_ids metadata = Inr r" by (simp add: extract_frame_ids_def)
  with extract_frame_ids_kept [OF this] show ?thesis by simp
qed

lemma example_parse: "parse_args example_env example_argv = Inr example_args"
  by (simp add: example_env_def)

lemma example_main: "snd (main example_env example_argv empty_world) = Inr 0"
  by (simp add: example_defs script_defs)

lemma resolve_answers:
  assumes "mkdir env (Path (output_dir a)) = None"
    and "create_client env (region a) = None"
    and "remote_metadata env (datastore_id a) (image_set_id a) = Inr blob"
    and "gunzip_decode env blob = Inr raw"
    and "json_loads env raw = Inr md"
  shows "snd (resolve env a w) = Inr md"
  using assms
  by (simp add: resolve_def get_medical_imaging_client_def get_image_set_metadata_def Let_def)

lemma compact_file:
  "files (fst (main compact_env example_argv empty_world)) (metadata_path example_args)
     = Some (Document tiny_metadata)"
  by (simp add: example_defs script_defs metadata_path_def)

lemma spaced_file:
  "files (fst (main spaced_env example_argv empty_world)) (metadata_path example_args)
     = Some (Document tiny_metadata)"
  by (simp add: example_defs script_defs metadata_path_def)

section \<open>The properties of the specification\<close>

text \<open>\<^bold>\<open>C1\<close>. When \<^verbatim>\<open>main\<close> reaches the end of its loop, the manifest has exactly one entry for
  each enumerated descriptor that survived the \<^verbatim>\<open>--max-frames\<close> cut, in enumeration order
  (the entries, read back as descriptors, are that list), and every entry is a success
  record or an error record, never both and never neither.\<close>

theorem manifest_one_entry_per_frame:
  assumes "main_loop env a w = (w', Inr m)"
  shows "\<exists>md ds. snd (resolve env a w) = Inr md \<and> extract_frame_ids md = Inr ds
           \<and> length (frames m) = length (limit_frames (max_frames a) ds)
           \<and> map entry_info (frames m) = map Some (limit_frames (max_frames a) ds)
           \<and> list_all (\<lambda>e. is_success_record e \<noteq> is_error_record e) (frames m)"
proof -
  from main_loop_Inr [OF assms] obtain w2 md ds
    where res: "resolve env a w = (w2, Inr md)" and ds: "extract_frame_ids md = Inr ds"
      and fr: "frames m = map (\<lambda>(k, fi). frame_entry env a (Path (output_dir a)) k fi)
                            (List.enumerate 0 (limit_frames (max_frames a) ds))"
    by blast
  from fr have "length (frames m) = length (limit_frames (max_frames a) ds)" by simp
  moreover from fr have "map entry_info (frames m) = map Some (limit_frames (max_frames a) ds)"
    by (simp only: entries_info)
  moreover from fr have "list_all (\<lambda>e. is_success_record e \<noteq> is_error_record e) (frames m)"
    by (simp only: entries_kind)
  ultimately show ?thesis using res ds by auto
qed

theorem manifest_one_entry_per_frame_witness:
  "snd (main_loop example_env example_args empty_world) = Inr example_manifest
   \<and> (\<exists>md ds. snd (resolve example_env example_args empty_world) = Inr md
         \<and> extract_frame_ids md = Inr ds
         \<and> length (frames example_manifest) = length (limit_frames (max_frames example_args) ds)
         \<and> map entry_info (frames example_manifest) = map Some (limit_frames (max_frames example_args) ds)
         \<and> list_all (\<lambda>e. is_success_record e \<noteq> is_error_record e) (frames example_manifest))"
proof -
  have "main_loop example_env example_args empty_world =
          (fst (main_loop example_env example_args empty_world), Inr example_manifest)"
    using example_main_loop by (simp add: prod_eq_iff)
  from manifest_one_entry_per_frame [OF this] example_main_loop show ?thesis by simp
qed

text \<open>\<^bold>\<open>C2\<close>. A failing frame does not stop the loop. For any three descriptors of which the
  first and the third are fetched and written and the second fails (in the fetch or in the
  write) with message \<open>msg\<close>, a manifest that starts empty ends with three entries: a success
  record, an error record carrying \<open>msg\<close>, a success record, each for its descriptor.\<close>

theorem frame_failure_does_not_halt:
  assumes "frames m = []"
    and "frame_outcome env a out 0 d1 = Inr b1"
    and "frame_outcome env a out 1 d2 = Inl msg"
    and "frame_outcome env a out 2 d3 = Inr b3"
  shows "\<exists>e1 e2 e3. frames (snd (process_frames env a out 0 [d1, d2, d3] (w, m))) = [e1, e2, e3]
           \<and> is_success_record e1 \<and> entry_info e1 = Some d1
           \<and> is_error_record e2 \<and> entry_info e2 = Some d2 \<and> field_of e2 ''error'' = Some (JStr msg)
           \<and> is_success_record e3 \<and> entry_info e3 = Some d3"
proof -
  let ?e1 = "frame_entry env a out 0 d1" and ?e2 = "frame_entry env a out 1 d2"
    and ?e3 = "frame_entry env a out 2 d3"
  have "List.enumerate 0 [d1, d2, d3] = [(0, d1), (1, d2), (2, d3)]"
    by (simp add: numeral_2_eq_2)
  with assms(1) have "frames (snd (process_frames env a out 0 [d1, d2, d3] (w, m))) = [?e1, ?e2, ?e3]"
    by (simp only: process_frames_manifest) simp
  moreover from assms(2) have "is_success_record ?e1" by (simp add: frame_entry_def success_record_kind)
  moreover from assms(4) have "is_success_record ?e3" by (simp add: frame_entry_def success_record_kind)
  moreover from assms(3) have "is_error_record ?e2 \<and> field_of ?e2 ''error'' = Some (JStr msg)"
    by (simp add: frame_entry_def error_record_kind)
  ultimately show ?thesis by (simp add: frame_entry_info)
qed

theorem frame_failure_does_not_halt_witness:
  "frames (example_manifest\<lparr>frames := []\<rparr>) = []
   \<and> frame_outcome example_env example_args (Path ''out'') 0 (example_frames ! 0) = Inr [1, 2, 3]
   \<and> frame_outcome example_env example_args (Path ''out'') 1 (example_frames ! 1) = Inl ''throttled''
   \<and> frame_outcome example_env example_args (Path ''out'') 2 (example_frames ! 2) = Inr [1, 2, 3]
   \<and> (\<exists>e1 e2 e3.
         frames (snd (process_frames example_env example_args (Path ''out'') 0
                        [example_frames ! 0, example_frames ! 1, example_frames ! 2]
                        (empty_world, example_manifest\<lparr>frames := []\<rparr>))) = [e1, e2, e3]
       \<and> is_success_record e1 \<and> entry_info e1 = Some (example_frames ! 0)
       \<and> is_error_record e2 \<and> entry_info e2 = Some (example_frames ! 1)
       \<and> field_of e2 ''error'' = Some (JStr ''throttled'')
       \<and> is_success_record e3 \<and> entry_info e3 = Some (example_frames ! 2))"
proof -
  have h0: "frames (example_manifest\<lparr>frames := []\<rparr>) = []" by simp
  have h1: "frame_outcome example_env example_args (Path ''out'') 0 (example_frames ! 0) = Inr [1, 2, 3]"
    by (simp add: frame_outcome_def example_env_def)
  have h2: "frame_outcome example_env example_args (Path ''out'') 1 (example_frames ! 1) = Inl ''throttled''"
    by (simp add: frame_outcome_def example_env_def)
  have h3: "frame_outcome example_env example_args (Path ''out'') 2 (example_frames ! 2) = Inr [1, 2, 3]"
    by (simp add: frame_outcome_def example_env_def)
  from frame_failure_does_not_halt [OF h0 h1 h2 h3, of empty_world] h0 h1 h2 h3
  show ?thesis by blast
qed

text \<open>\<^bold>\<open>C3\<close>. For a well-formed document the enumeration returns, and the number of
  descriptors is the sum, over all series and all their instances, of the number of frame
  references of the instance.\<close>

theorem extract_frame_ids_count:
  assumes "well_formed metadata"
  shows "\<exists>ds. extract_frame_ids metadata = Inr ds \<and> length ds = frame_ref_count metadata"
proof -
  from well_formed_returns [OF assms] obtain ds where ds: "extract_frame_ids metadata = Inr ds" by blast
  then have "ds = kept (frame_refs metadata)" by (rule extract_frame_ids_kept)
  moreover have "skipped (frame_refs metadata) = 0"
    using well_formed_refs [OF assms] by (rule skipped_zero)
  ultimately have "length ds = frame_ref_count metadata"
    using kept_skipped [of "frame_refs metadata"] by (simp add: length_frame_refs)
  with ds show ?thesis by simp
qed

theorem extract_frame_ids_count_witness:
  "well_formed example_metadata
   \<and> (\<exists>ds. extract_frame_ids example_metadata = Inr ds \<and> length ds = frame_ref_count example_metadata)"
proof -
  have h: "well_formed example_metadata"
    by (simp add: example_metadata_def reading_defs)
  from extract_frame_ids_count [OF h] h show ?thesis by simp
qed

text \<open>\<^bold>\<open>C4\<close>. With \<^verbatim>\<open>max_frames = 0\<close> the list of descriptors is unchanged; with
  \<^verbatim>\<open>max_frames = n > 0\<close> it is cut to its first \<open>n\<close> elements, so that \<open>min n total\<close> remain.
  The cut is a total function: nothing is raised for what it drops.\<close>

theorem limit_frames_head:
  "limit_frames 0 frame_ids = frame_ids
   \<and> (0 < n \<longrightarrow> limit_frames n frame_ids = take (nat n) frame_ids
               \<and> length (limit_frames n frame_ids) = min (nat n) (length frame_ids))"
  by (simp add: limit_frames_def min_def)

theorem limit_frames_head_witness:
  "(0::int) < 2
   \<and> limit_frames 0 example_frames = example_frames
   \<and> limit_frames 2 example_frames = take (nat 2) example_frames
   \<and> length (limit_frames 2 example_frames) = min (nat 2) (length example_frames)"
  using limit_frames_head [of example_frames 2] by simp

text \<open>\<^bold>\<open>C5\<close>. On a run past the parsing of the command line: when metadata resolution fails,
  the process ends with a nonzero status, the files are as they were (no \<^verbatim>\<open>metadata.json\<close>,
  no \<^verbatim>\<open>manifest.json\<close> is produced), and the run has made no frame request and opened no
  file.\<close>

theorem metadata_failure_aborts:
  assumes "parse_args env argv = Inr a"
    and "metadata_resolution_fails env a"
  shows "exit_code (snd (main env argv w)) \<noteq> 0
       \<and> files (fst (main env argv w)) = files w
       \<and> (\<exists>evs. trace (fst (main env argv w)) = trace w @ evs \<and> list_all setup_event evs)"
  using main_with_aborts [OF assms(2), of w] by (simp add: main_parsed [OF assms(1)])

theorem metadata_failure_aborts_witness:
  "parse_args denied_env example_argv = Inr example_args
   \<and> metadata_resolution_fails denied_env example_args
   \<and> exit_code (snd (main denied_env example_argv empty_world)) \<noteq> 0
   \<and> files (fst (main denied_env example_argv empty_world)) = files empty_world
   \<and> (\<exists>evs. trace (fst (main denied_env example_argv empty_world)) = trace empty_world @ evs
          \<and> list_all setup_event evs)"
proof -
  have p: "parse_args denied_env example_argv = Inr example_args"
    by (simp add: denied_env_def example_env_def)
  have h: "metadata_resolution_fails denied_env example_args"
    by (simp add: metadata_resolution_fails_def denied_env_def)
  from metadata_failure_aborts [OF p h, of empty_world] p h show ?thesis by simp
qed

text \<open>\<^bold>\<open>C6\<close>. As stated (status 0 whenever the loop has run to its end) the property fails: the
  manifest is written after the loop, outside the \<^verbatim>\<open>try\<close>, and an exception there leaves
  \<^verbatim>\<open>main\<close>. What holds: when the loop has run to its end and the manifest file is written,
  the status is 0; a nonzero status means that an exception has left \<^verbatim>\<open>main\<close>, and it did
  so outside the loop: in \<^verbatim>\<open>parse_args\<close>, before the loop has ended, or in the write of the
  manifest; and whether \<^verbatim>\<open>main\<close> reaches the end of its loop does not depend on the outcome
  of any frame.\<close>

theorem exit_code_after_loop:
  "(parse_args env argv = Inr a \<and> main_loop env a w = (w4, Inr m)
      \<and> manifest_write env (manifest_path a) = Written
      \<longrightarrow> exit_code (snd (main env argv w)) = 0)
   \<and> (exit_code (snd (main env argv w)) \<noteq> 0
      \<longrightarrow> isl (snd (main env argv w))
          \<and> (isl (parse_args env argv)
             \<or> (\<exists>a'. parse_args env argv = Inr a'
                   \<and> (isl (snd (main_loop env a' w))
                      \<or> manifest_write env (manifest_path a') \<noteq> Written))))
   \<and> isl (snd (main_loop (env\<lparr>remote_frame := rf, frame_write := fw\<rparr>) a w))
       = isl (snd (main_loop env a w))"
proof (intro conjI impI)
  assume "parse_args env argv = Inr a \<and> main_loop env a w = (w4, Inr m)
      \<and> manifest_write env (manifest_path a) = Written"
  then show "exit_code (snd (main env argv w)) = 0"
    by (simp add: main_parsed main_with_exit)
next
  assume nz: "exit_code (snd (main env argv w)) \<noteq> 0"
  show "isl (snd (main env argv w))"
  proof (cases "parse_args env argv")
    case (Inl status)
    then show ?thesis by (simp add: main_usage)
  next
    case (Inr a')
    with nz show ?thesis
      by (simp add: main_parsed main_with_exit main_with_raises split: if_splits)
  qed
  show "isl (parse_args env argv)
      \<or> (\<exists>a'. parse_args env argv = Inr a'
            \<and> (isl (snd (main_loop env a' w)) \<or> manifest_write env (manifest_path a') \<noteq> Written))"
  proof (cases "parse_args env argv")
    case (Inl status)
    then show ?thesis by simp
  next
    case (Inr a')
    with nz show ?thesis
      by (simp add: main_parsed main_with_exit split: if_splits)
  qed
next
  show "isl (snd (main_loop (env\<lparr>remote_frame := rf, frame_write := fw\<rparr>) a w))
       = isl (snd (main_loop env a w))"
    by (rule main_loop_frames_independent)
qed

theorem exit_code_after_loop_witness:
  "parse_args example_env example_argv = Inr example_args
   \<and> snd (main_loop example_env example_args empty_world) = Inr example_manifest
   \<and> manifest_write example_env (manifest_path example_args) = Written
   \<and> exit_code (snd (main example_env example_argv empty_world)) = 0
   \<and> exit_code (snd (main readonly_env example_argv empty_world)) = 1
   \<and> isl (snd (main readonly_env example_argv empty_world))
   \<and> exit_code (snd (main example_env [] empty_world)) = 2
   \<and> isl (snd (main example_env [] empty_world))"
proof -
  have l: "main_loop example_env example_args empty_world =
          (fst (main_loop example_env example_args empty_world), Inr example_manifest)"
    using example_main_loop by (simp add: prod_eq_iff)
  have w: "manifest_write example_env (manifest_path example_args) = Written"
    by (simp add: example_env_def)
  have nz: "exit_code (snd (main readonly_env example_argv empty_world)) = 1"
    by (simp add: script_defs readonly_env_def example_env_def)
  have us: "exit_code (snd (main example_env [] empty_world)) = 2"
    by (simp add: script_defs example_env_def example_argv_def)
  from exit_code_after_loop [of example_env example_argv example_args empty_world
        "fst (main_loop example_env example_args empty_world)" example_manifest] example_parse l w
  have z: "exit_code (snd (main example_env example_argv empty_world)) = 0" by blast
  from exit_code_after_loop [of readonly_env example_argv _ empty_world] nz
  have i: "isl (snd (main readonly_env example_argv empty_world))" by simp
  from exit_code_after_loop [of example_env "[]" _ empty_world] us
  have j: "isl (snd (main example_env [] empty_world))" by simp
  from example_parse example_main_loop w z nz i us j show ?thesis by blast
qed

theorem exit_code_after_loop_counterexample:
  "parse_args full_disk_env example_argv = Inr example_args
   \<and> snd (main_loop full_disk_env example_args empty_world) = Inr example_manifest
   \<and> exit_code (snd (main full_disk_env example_argv empty_world)) = 1"
  by (simp add: example_defs script_defs numeral_3_eq_3)

text \<open>\<^bold>\<open>C7\<close>. When \<^verbatim>\<open>main\<close> returns, the document in \<^verbatim>\<open>manifest.json\<close> has a list \<^verbatim>\<open>frames\<close> and an
  integer \<^verbatim>\<open>totalFrames\<close> equal to the length of that list, which is the number of descriptors
  processed.\<close>

theorem manifest_round_trip:
  assumes "snd (main env argv w) = Inr n"
  shows "\<exists>a doc entries.
           parse_args env argv = Inr a
         \<and> files (fst (main env argv w)) (manifest_path a) = Some (Document doc)
         \<and> field_of doc ''frames'' = Some (JArr entries)
         \<and> field_of doc ''totalFrames'' = Some (JInt (int (length entries)))
         \<and> (\<exists>md ds. snd (resolve env a w) = Inr md \<and> extract_frame_ids md = Inr ds
                \<and> length entries = length (limit_frames (max_frames a) ds))"
proof (cases "parse_args env argv")
  case (Inl status)
  with assms show ?thesis by (simp add: main_usage)
next
  case (Inr a)
  with assms have "snd (main_with env a w) = Inr n" by (simp add: main_parsed)
  from main_with_round_trip [OF this] Inr show ?thesis by (simp add: main_parsed)
qed

theorem manifest_round_trip_witness:
  "snd (main example_env example_argv empty_world) = Inr 0
   \<and> (\<exists>a doc entries.
         parse_args example_env example_argv = Inr a
       \<and> files (fst (main example_env example_argv empty_world)) (manifest_path a)
           = Some (Document doc)
       \<and> field_of doc ''frames'' = Some (JArr entries)
       \<and> field_of doc ''totalFrames'' = Some (JInt (int (length entries)))
       \<and> (\<exists>md ds. snd (resolve example_env a empty_world) = Inr md
              \<and> extract_frame_ids md = Inr ds
              \<and> length entries = length (limit_frames (max_frames a) ds)))"
  using manifest_round_trip [OF example_main] example_main by simp

text \<open>\<^bold>\<open>C8\<close>. As stated the property fails on \<^emph>\<open>raw\<close> and \<^emph>\<open>verbatim\<close>: the script keeps the value
  that \<^verbatim>\<open>json.loads\<close> made of the received text and writes what \<^verbatim>\<open>json.dump\<close> makes of that
  value, so two different raw texts of one document leave the same file. What holds, on a
  run in which the document is resolved and \<^verbatim>\<open>metadata.json\<close> can be written: the file holds
  the parsed document \<open>md\<close>, its text is that of \<^verbatim>\<open>json.dump\<close> for \<open>md\<close>, whatever the
  enumeration and the frames do afterwards, and the file is opened right after the metadata
  call: every frame request comes later.\<close>

theorem metadata_persisted_first:
  assumes "parse_args env argv = Inr a"
    and "mkdir env (Path (output_dir a)) = None"
    and "create_client env (region a) = None"
    and "remote_metadata env (datastore_id a) (image_set_id a) = Inr blob"
    and "gunzip_decode env blob = Inr raw"
    and "json_loads env raw = Inr md"
    and "metadata_write env (metadata_path a) = Written"
  shows "files (fst (main env argv w)) (metadata_path a) = Some (Document md)
       \<and> file_text env (fst (main env argv w)) (metadata_path a) = Some (json_dumps env md)
       \<and> (\<exists>evs. trace (fst (main env argv w)) =
                   trace w @ [MakeDirs (Path (output_dir a)), CreateClient,
                              MetadataCall (datastore_id a) (image_set_id a),
                              OpenFile (metadata_path a)] @ evs)"
proof -
  from resolve_answers [OF assms(2-6), of w]
  have "resolve env a w = (fst (resolve env a w), Inr md)" by (simp add: prod_eq_iff)
  from main_with_metadata [OF this assms(7)] show ?thesis
    by (simp add: main_parsed [OF assms(1)] file_text_def text_of_def)
qed

theorem metadata_persisted_first_witness:
  "parse_args compact_env example_argv = Inr example_args
   \<and> mkdir compact_env (Path (output_dir example_args)) = None
   \<and> create_client compact_env (region example_args) = None
   \<and> remote_metadata compact_env (datastore_id example_args) (image_set_id example_args)
       = Inr [31, 139, 8, 0]
   \<and> gunzip_decode compact_env [31, 139, 8, 0] = Inr text_compact
   \<and> json_loads compact_env text_compact = Inr tiny_metadata
   \<and> metadata_write compact_env (metadata_path example_args) = Written
   \<and> files (fst (main compact_env example_argv empty_world)) (metadata_path example_args)
       = Some (Document tiny_metadata)
   \<and> file_text compact_env (fst (main compact_env example_argv empty_world))
         (metadata_path example_args) = Some (json_dumps compact_env tiny_metadata)
   \<and> (\<exists>evs. trace (fst (main compact_env example_argv empty_world)) =
               trace empty_world @ [MakeDirs (Path (output_dir example_args)), CreateClient,
                  MetadataCall (datastore_id example_args) (image_set_id example_args),
                  OpenFile (metadata_path example_args)] @ evs)"
proof -
  have h1: "parse_args compact_env example_argv = Inr example_args"
    by (simp add: compact_env_def example_env_def)
  have h2: "mkdir compact_env (Path (output_dir example_args)) = None"
    by (simp add: compact_env_def example_env_def)
  have h3: "create_client compact_env (region example_args) = None"
    by (simp add: compact_env_def example_env_def)
  have h4: "remote_metadata compact_env (datastore_id example_args) (image_set_id example_args)
       = Inr [31, 139, 8, 0]"
    by (simp add: compact_env_def)
  have h5: "gunzip_decode compact_env [31, 139, 8, 0] = Inr text_compact"
    by (simp add: compact_env_def)
  have h6: "json_loads compact_env text_compact = Inr tiny_metadata"
    by (simp add: compact_env_def)
  have h7: "metadata_write compact_env (metadata_path example_args) = Written"
    by (simp add: compact_env_def example_env_def)
  from metadata_persisted_first [OF h1 h2 h3 h4 h5 h6 h7, of empty_world] h1 h2 h3 h4 h5 h6 h7
  show ?thesis by blast
qed

theorem metadata_persisted_first_counterexample:
  "gunzip_decode compact_env [31, 139, 8, 0] = Inr text_compact
   \<and> file_text compact_env (fst (main compact_env example_argv empty_world))
         (metadata_path example_args) = Some text_indented
   \<and> text_indented \<noteq> text_compact
   \<and> gunzip_decode spaced_env [31, 139, 8, 1] = Inr text_spaced
   \<and> text_spaced \<noteq> text_compact
   \<and> files (fst (main spaced_env example_argv empty_world)) (metadata_path example_args)
       = files (fst (main compact_env example_argv empty_world)) (metadata_path example_args)"
proof -
  have "json_dumps compact_env tiny_metadata = text_indented"
    by (simp add: compact_env_def example_env_def)
  then have "file_text compact_env (fst (main compact_env example_argv empty_world))
         (metadata_path example_args) = Some text_indented"
    by (simp add: file_text_def text_of_def compact_file)
  moreover have "gunzip_decode compact_env [31, 139, 8, 0] = Inr text_compact"
    and "gunzip_decode spaced_env [31, 139, 8, 1] = Inr text_spaced"
    by (simp_all add: compact_env_def spaced_env_def)
  moreover have "text_indented \<noteq> text_compact" and "text_spaced \<noteq> text_compact"
    by (simp_all add: text_indented_def text_compact_def text_spaced_def)
  ultimately show ?thesis by (simp add: compact_file spaced_file)
qed

text \<open>\<^bold>\<open>C9\<close>. As stated the property fails for identifiers that contain a slash: the record
  carries the final component of the path only, and a leading slash takes the file out of
  the output directory. What holds for a frame that is fetched and written: the filename
  is \<open>seriesId_instanceId_frameId.htj2k\<close>, the payload is the content of
  \<open>output_path / filename\<close>, the record appended is the success record with the final
  component of that path and the number of bytes; and when the filename has no slash, that
  component is the filename and the file lies directly in the output directory.\<close>

theorem persisted_frame:
  assumes "remote_frame env i (datastore_id a) (image_set_id a) (frameId fi) = Inr frame_data"
    and "frame_write env i (joinpath out (frame_filename env fi)) = Written"
  shows "frame_filename env fi =
           seriesId fi @ ''_'' @ instanceId fi @ ''_'' @ format_value env (frameId fi) @ ''.htj2k''
       \<and> files (fst (process_frame env a out i fi (w, m))) (joinpath out (frame_filename env fi))
           = Some (Bytes frame_data)
       \<and> frames (snd (process_frame env a out i fi (w, m))) =
           frames m @ [success_record fi (path_name (joinpath out (frame_filename env fi)))
                         (int (length frame_data))]
       \<and> (CHR ''/'' \<notin> set (frame_filename env fi) \<longrightarrow>
            path_name (joinpath out (frame_filename env fi)) = frame_filename env fi
          \<and> joinpath out (frame_filename env fi) = out\<lparr>parts := parts out @ [frame_filename env fi]\<rparr>)"
proof (intro conjI impI)
  show "frame_filename env fi =
          seriesId fi @ ''_'' @ instanceId fi @ ''_'' @ format_value env (frameId fi) @ ''.htj2k''"
    by (simp add: frame_filename_def)
  from assms show "files (fst (process_frame env a out i fi (w, m))) (joinpath out (frame_filename env fi))
           = Some (Bytes frame_data)"
    by (simp add: process_frame_def fetch_image_frame_def save_frame_def write_file_Written Let_def)
  from assms show "frames (snd (process_frame env a out i fi (w, m))) =
           frames m @ [success_record fi (path_name (joinpath out (frame_filename env fi)))
                         (int (length frame_data))]"
    by (simp add: process_frame_manifest frame_entry_def frame_outcome_def)
next
  assume "CHR ''/'' \<notin> set (frame_filename env fi)"
  then have ns: "CHR ''/'' \<notin> set (seriesId fi @ ''_'' @ instanceId fi @ ''_'' @ format_value env (frameId fi))"
    by (simp add: frame_filename_def)
  from path_name_plain [OF ns, of out]
  show "path_name (joinpath out (frame_filename env fi)) = frame_filename env fi"
    and "joinpath out (frame_filename env fi) = out\<lparr>parts := parts out @ [frame_filename env fi]\<rparr>"
    by (simp_all add: frame_filename_ext)
qed

theorem persisted_frame_witness:
  "remote_frame example_env 0 (datastore_id example_args) (image_set_id example_args)
     (frameId (example_frames ! 0)) = Inr [1, 2, 3]
   \<and> frame_write example_env 0 (joinpath (Path ''out'') (frame_filename example_env (example_frames ! 0)))
       = Written
   \<and> frame_filename example_env (example_frames ! 0) = ''s1_i1_f1.htj2k''
   \<and> CHR ''/'' \<notin> set (frame_filename example_env (example_frames ! 0))
   \<and> files (fst (process_frame example_env example_args (Path ''out'') 0 (example_frames ! 0)
                    (empty_world, example_manifest\<lparr>frames := []\<rparr>)))
         (joinpath (Path ''out'') (frame_filename example_env (example_frames ! 0)))
       = Some (Bytes [1, 2, 3])
   \<and> frames (snd (process_frame example_env example_args (Path ''out'') 0 (example_frames ! 0)
                     (empty_world, example_manifest\<lparr>frames := []\<rparr>)))
       = [success_record (example_frames ! 0) (frame_filename example_env (example_frames ! 0)) 3]
   \<and> joinpath (Path ''out'') (frame_filename example_env (example_frames ! 0))
       = \<lparr>root = [], parts = [''out'', ''s1_i1_f1.htj2k'']\<rparr>"
proof -
  let ?fi = "example_frames ! 0" and ?m = "example_manifest\<lparr>frames := []\<rparr>"
  have h1: "remote_frame example_env 0 (datastore_id example_args) (image_set_id example_args)
     (frameId ?fi) = Inr [1, 2, 3]"
    by (simp add: example_env_def)
  have h2: "frame_write example_env 0 (joinpath (Path ''out'') (frame_filename example_env ?fi)) = Written"
    by (simp add: example_env_def)
  have n: "frame_filename example_env ?fi = ''s1_i1_f1.htj2k''"
    by (simp add: example_frames_def frame_filename_def format_value_def)
  then have ns: "CHR ''/'' \<notin> set (frame_filename example_env ?fi)" by simp
  note t = persisted_frame [OF h1 h2, of empty_world ?m]
  from t have f: "files (fst (process_frame example_env example_args (Path ''out'') 0 ?fi (empty_world, ?m)))
         (joinpath (Path ''out'') (frame_filename example_env ?fi)) = Some (Bytes [1, 2, 3])"
    by blast
  from t ns have pn: "path_name (joinpath (Path ''out'') (frame_filename example_env ?fi))
      = frame_filename example_env ?fi"
    by blast
  from t have "frames (snd (process_frame example_env example_args (Path ''out'') 0 ?fi (empty_world, ?m)))
      = frames ?m @ [success_record ?fi (path_name (joinpath (Path ''out'') (frame_filename example_env ?fi)))
                       (int (length [1, 2, 3 :: 8 word]))]"
    by blast
  with pn have r: "frames (snd (process_frame example_env example_args (Path ''out'') 0 ?fi (empty_world, ?m)))
      = [success_record ?fi (frame_filename example_env ?fi) 3]"
    by simp
  from t ns have "joinpath (Path ''out'') (frame_filename example_env ?fi)
      = (Path ''out'')\<lparr>parts := parts (Path ''out'') @ [frame_filename example_env ?fi]\<rparr>"
    by blast
  then have j: "joinpath (Path ''out'') (frame_filename example_env ?fi)
      = \<lparr>root = [], parts = [''out'', ''s1_i1_f1.htj2k'']\<rparr>"
    by (simp add: n Path_def path_root_def path_parts_def)
  from h1 h2 n ns f r j show ?thesis by blast
qed

theorem persisted_frame_counterexample:
  "frame_filename example_env slash_frame = ''a/b_i_f.htj2k''
   \<and> files (fst (process_frame example_env example_args (Path ''out'') 0 slash_frame
                    (empty_world, example_manifest\<lparr>frames := []\<rparr>)))
         \<lparr>root = [], parts = [''out'', ''a'', ''b_i_f.htj2k'']\<rparr> = Some (Bytes [1, 2, 3])
   \<and> frames (snd (process_frame example_env example_args (Path ''out'') 0 slash_frame
                     (empty_world, example_manifest\<lparr>frames := []\<rparr>)))
       = [success_record slash_frame ''b_i_f.htj2k'' 3]
   \<and> field_of (success_record slash_frame ''b_i_f.htj2k'' 3) ''filename''
       \<noteq> Some (JStr (frame_filename example_env slash_frame))"
  by (simp add: example_defs script_defs field_of_def)

text \<open>\<^bold>\<open>C10\<close>. On every navigable document, whatever the identifiers of its frame references
  are, the enumeration returns and raises nothing, and what it returns are the descriptors
  of exactly the references whose \<^verbatim>\<open>ID\<close> is present and truthy, in document order. Whenever
  it returns, the descriptors and the skipped references add up to the references, so the
  descriptors are fewer as soon as one reference is skipped.\<close>

theorem extract_frame_ids_skips:
  "(navigable metadata \<longrightarrow> extract_frame_ids metadata = Inr (kept (frame_refs metadata)))
   \<and> (extract_frame_ids metadata = Inr ds \<longrightarrow>
        ds = kept (frame_refs metadata)
      \<and> length ds + skipped (frame_refs metadata) = frame_ref_count metadata
      \<and> (0 < skipped (frame_refs metadata) \<longrightarrow> length ds < frame_ref_count metadata))"
proof (intro conjI impI)
  assume "navigable metadata"
  then show "extract_frame_ids metadata = Inr (kept (frame_refs metadata))"
    by (rule navigable_returns)
next
  assume r: "extract_frame_ids metadata = Inr ds"
  then show k: "ds = kept (frame_refs metadata)" by (rule extract_frame_ids_kept)
  then show l: "length ds + skipped (frame_refs metadata) = frame_ref_count metadata"
    using kept_skipped [of "frame_refs metadata"] by (simp add: length_frame_refs)
  assume "0 < skipped (frame_refs metadata)"
  with l show "length ds < frame_ref_count metadata" by simp
qed

theorem extract_frame_ids_skips_witness:
  "navigable gappy_metadata
   \<and> extract_frame_ids gappy_metadata = Inr (kept (frame_refs gappy_metadata))
   \<and> kept (frame_refs gappy_metadata)
       = [\<lparr>frameId = JStr ''f1'', seriesId = ''s1'', instanceId = ''i1''\<rparr>,
          \<lparr>frameId = JStr ''f2'', seriesId = ''s1'', instanceId = ''i1''\<rparr>]
   \<and> frame_ref_count gappy_metadata = 10
   \<and> skipped (frame_refs gappy_metadata) = 8
   \<and> length (kept (frame_refs gappy_metadata)) < frame_ref_count gappy_metadata"
proof -
  have n: "navigable gappy_metadata"
    by (simp add: gappy_metadata_def navigable_def nav_series_def nav_instance_def is_object_def)
  have k: "kept (frame_refs gappy_metadata)
       = [\<lparr>frameId = JStr ''f1'', seriesId = ''s1'', instanceId = ''i1''\<rparr>,
          \<lparr>frameId = JStr ''f2'', seriesId = ''s1'', instanceId = ''i1''\<rparr>]"
    by (simp add: gappy_metadata_def reading_defs)
  have c: "frame_ref_count gappy_metadata = 10"
    by (simp add: gappy_metadata_def reading_defs)
  have s: "skipped (frame_refs gappy_metadata) = 8"
    by (simp add: gappy_metadata_def reading_defs)
  note t = extract_frame_ids_skips [of gappy_metadata "kept (frame_refs gappy_metadata)"]
  from t n have r: "extract_frame_ids gappy_metadata = Inr (kept (frame_refs gappy_metadata))"
    by blast
  with t have "0 < skipped (frame_refs gappy_metadata) \<longrightarrow>
      length (kept (frame_refs gappy_metadata)) < frame_ref_count gappy_metadata"
    by blast
  with s have l: "length (kept (frame_refs gappy_metadata)) < frame_ref_count gappy_metadata"
    by simp
  from n r k c s l show ?thesis by blast
qed

end
